theory Spec2Isabelle
  imports Main
begin

section \<open>Python values\<close>

text \<open>
  The values that flow through the backend: configuration values (strings from the
  environment; \<open>None\<close>, booleans, integers, strings, bytes and function objects from the
  config object) and the JSON payloads of the Meteor client (lists and dictionaries).
  A dictionary is an association list with string keys.
\<close>

datatype pyval =
    PyNone
  | PyBool bool
  | PyInt int
  | PyStr string
  | PyBytes string
  | PyFunc string
  | PyList "pyval list"
  | PyDict "(string \<times> pyval) list"

text \<open>Exceptions. \<open>KeyboardInterrupt\<close> and \<open>SystemExit\<close> derive from \<open>BaseException\<close>
  only, so \<open>except Exception\<close> does not catch them.\<close>

datatype exn =
    ValueError string
  | KeyError string
  | IndexError
  | TypeError
  | AttributeError
  | AssertionError
  | OtherException string
  | KeyboardInterrupt
  | SystemExit

fun is_Exception :: "exn \<Rightarrow> bool" where
  "is_Exception KeyboardInterrupt = False"
| "is_Exception SystemExit = False"
| "is_Exception _ = True"

text \<open>Truth value testing (\<open>not v\<close>, \<open>a or b\<close>).\<close>

fun py_truthy :: "pyval \<Rightarrow> bool" where
  "py_truthy PyNone = False"
| "py_truthy (PyBool b) = b"
| "py_truthy (PyInt n) = (n \<noteq> 0)"
| "py_truthy (PyStr s) = (s \<noteq> [])"
| "py_truthy (PyBytes s) = (s \<noteq> [])"
| "py_truthy (PyFunc f) = True"
| "py_truthy (PyList xs) = (xs \<noteq> [])"
| "py_truthy (PyDict kvs) = (kvs \<noteq> [])"

definition py_or :: "pyval \<Rightarrow> pyval \<Rightarrow> pyval" where
  "py_or a b = (if py_truthy a then a else b)"

text \<open>
  Equality \<open>a == b\<close> (and \<open>a != b\<close>, its negation). A \<open>bool\<close> is an \<open>int\<close>, so \<open>True\<close>
  equals \<open>1\<close> and \<open>False\<close> equals \<open>0\<close>; strings and bytes never equal each other;
  function objects are equal when they are the same object; lists are equal
  element by element; dictionaries (association lists without repeated keys) are
  equal when they have as many keys and every key of the first has an equal value in
  the second.
\<close>

fun py_eq :: "pyval \<Rightarrow> pyval \<Rightarrow> bool"
  and py_eq_list :: "pyval list \<Rightarrow> pyval list \<Rightarrow> bool"
  and py_eq_items :: "(string \<times> pyval) list \<Rightarrow> (string \<times> pyval) list \<Rightarrow> bool" where
  "py_eq PyNone PyNone = True"
| "py_eq (PyBool a) (PyBool b) = (a = b)"
| "py_eq (PyBool a) (PyInt n) = ((if a then 1 else 0) = n)"
| "py_eq (PyInt m) (PyBool b) = (m = (if b then 1 else 0))"
| "py_eq (PyInt m) (PyInt n) = (m = n)"
| "py_eq (PyStr s) (PyStr t) = (s = t)"
| "py_eq (PyBytes s) (PyBytes t) = (s = t)"
| "py_eq (PyFunc f) (PyFunc g) = (f = g)"
| "py_eq (PyList xs) (PyList ys) = py_eq_list xs ys"
| "py_eq (PyDict kvs) (PyDict lvs) = (length kvs = length lvs \<and> py_eq_items kvs lvs)"
| "py_eq _ _ = False"
| "py_eq_list [] [] = True"
| "py_eq_list (x # xs) (y # ys) = (py_eq x y \<and> py_eq_list xs ys)"
| "py_eq_list _ _ = False"
| "py_eq_items [] lvs = True"
| "py_eq_items ((k, v) # kvs) lvs =
     ((case map_of lvs k of None \<Rightarrow> False | Some w \<Rightarrow> py_eq v w) \<and> py_eq_items kvs lvs)"

text \<open>\<open>str(n)\<close> for an integer: its decimal digits, with a leading minus sign.\<close>

definition digit_char :: "nat \<Rightarrow> char" where
  "digit_char d =
     (if d = 0 then CHR ''0'' else if d = 1 then CHR ''1'' else if d = 2 then CHR ''2''
      else if d = 3 then CHR ''3'' else if d = 4 then CHR ''4'' else if d = 5 then CHR ''5''
      else if d = 6 then CHR ''6'' else if d = 7 then CHR ''7'' else if d = 8 then CHR ''8''
      else CHR ''9'')"

fun str_nat :: "nat \<Rightarrow> string" where
  "str_nat n = (if n < 10 then [digit_char n] else str_nat (n div 10) @ [digit_char (n mod 10)])"

definition str_int :: "int \<Rightarrow> string" where
  "str_int n = (if n < 0 then CHR ''-'' # str_nat (nat (- n)) else str_nat (nat n))"

text \<open>The characters of the decimal form of an integer.\<close>

definition decimal_chars :: "char set" where
  "decimal_chars = set ''-0123456789''"

fun join :: "string \<Rightarrow> string list \<Rightarrow> string" where
  "join sep [] = []"
| "join sep [x] = x"
| "join sep (x # y # ys) = x @ sep @ join sep (y # ys)"

text \<open>
  \<open>repr\<close> and \<open>str\<close>. The \<open>repr\<close> of a string or of bytes is written with single quotes
  around the characters as they are (the escapes of quotes, backslashes and control
  characters are not expanded), and a function object prints as \<open><function name>\<close>
  (without its address).
\<close>

fun py_repr :: "pyval \<Rightarrow> string" where
  "py_repr PyNone = ''None''"
| "py_repr (PyBool b) = (if b then ''True'' else ''False'')"
| "py_repr (PyInt n) = str_int n"
| "py_repr (PyStr s) = [CHR 0x27] @ s @ [CHR 0x27]"
| "py_repr (PyBytes s) = [CHR ''b'', CHR 0x27] @ s @ [CHR 0x27]"
| "py_repr (PyFunc f) = ''<function '' @ f @ ''>''"
| "py_repr (PyList xs) = ''['' @ join '', '' (map py_repr xs) @ '']''"
| "py_repr (PyDict kvs) =
     ''{'' @ join '', '' (map (\<lambda>kv. [CHR 0x27] @ fst kv @ [CHR 0x27] @ '': '' @ py_repr (snd kv)) kvs) @ ''}''"

fun py_str :: "pyval \<Rightarrow> string" where
  "py_str (PyStr s) = s"
| "py_str v = py_repr v"

text \<open>\<open>str.lower\<close>: the letters \<open>A\<close> to \<open>Z\<close> move to \<open>a\<close> to \<open>z\<close>; the other characters
  of the Latin-1 range that have a lower-case form are left as they are here, none of
  them being mapped to an ASCII character by Python.\<close>

definition lower_char :: "char \<Rightarrow> char" where
  "lower_char c =
     (case map_of (zip ''ABCDEFGHIJKLMNOPQRSTUVWXYZ'' ''abcdefghijklmnopqrstuvwxyz'') c of
        None \<Rightarrow> c
      | Some l \<Rightarrow> l)"

definition py_lower :: "string \<Rightarrow> string" where
  "py_lower s = map lower_char s"

text \<open>\<open>callable(v)\<close> and \<open>isinstance(v, int)\<close> (a \<open>bool\<close> is an \<open>int\<close> in Python).\<close>

fun py_callable :: "pyval \<Rightarrow> bool" where
  "py_callable (PyFunc f) = True"
| "py_callable _ = False"


text \<open>\<open>d[k]\<close> and \<open>d.get(k, None)\<close> on a value: a missing key raises \<open>KeyError\<close> for the
  first and gives \<open>None\<close> for the second; a value that is not a dictionary has neither
  (\<open>TypeError\<close> for the subscript of \<open>None\<close>, numbers and functions, \<open>AttributeError\<close> for \<open>get\<close>).
  Subscripting a string, bytes or a list with a string key is a \<open>TypeError\<close> as well.\<close>

fun py_getitem :: "pyval \<Rightarrow> string \<Rightarrow> exn + pyval" where
  "py_getitem (PyDict kvs) k = (case map_of kvs k of None \<Rightarrow> Inl (KeyError k) | Some v \<Rightarrow> Inr v)"
| "py_getitem _ k = Inl TypeError"

fun py_get :: "pyval \<Rightarrow> string \<Rightarrow> exn + pyval" where
  "py_get (PyDict kvs) k = (case map_of kvs k of None \<Rightarrow> Inr PyNone | Some v \<Rightarrow> Inr v)"
| "py_get _ k = Inl AttributeError"

section \<open>Configuration\<close>

text \<open>
  \<open>environ\<close> is \<open>os.environ\<close>; \<open>bot_config\<close> holds the attributes of Errbot's config
  module; \<open>config_obj\<close> is its attribute \<open>ROCKETCHAT_CONFIG\<close> (\<open>None\<close> when the module
  has none), itself an object whose attributes are looked up by key.
\<close>

record sysconfig =
  environ :: "string \<rightharpoonup> string"
  bot_config :: "string \<rightharpoonup> pyval"
  config_obj :: "(string \<rightharpoonup> pyval) option"

definition ENV_VAR_NAME_PREFIX :: string where
  "ENV_VAR_NAME_PREFIX = ''ROCKETCHAT_''"

definition PATCH_METEOR_CLIENT :: string where "PATCH_METEOR_CLIENT = ''PATCH_METEOR_CLIENT''"
definition RECONNECT_ENABLED :: string where "RECONNECT_ENABLED = ''RECONNECT_ENABLED''"
definition HEARTBEAT_ENABLED :: string where "HEARTBEAT_ENABLED = ''HEARTBEAT_ENABLED''"
definition HEARTBEAT_INTERVAL :: string where "HEARTBEAT_INTERVAL = ''HEARTBEAT_INTERVAL''"
definition HEARTBEAT_FUNC :: string where "HEARTBEAT_FUNC = ''HEARTBEAT_FUNC''"

text \<open>\<open>RocketChat._get_config\<close>: the environment variable first, then the config object,
  then the default.\<close>

definition get_config :: "sysconfig \<Rightarrow> string \<Rightarrow> pyval \<Rightarrow> pyval" where
  "get_config cfg key dflt =
     (case environ cfg (ENV_VAR_NAME_PREFIX @ key) of
        Some s \<Rightarrow> PyStr s
      | None \<Rightarrow>
          (case config_obj cfg of
             None \<Rightarrow> dflt
           | Some obj \<Rightarrow> (case obj key of None \<Rightarrow> dflt | Some v \<Rightarrow> v)))"

text \<open>\<open>RocketChat._get_bool_config\<close>.\<close>

definition get_bool_config :: "sysconfig \<Rightarrow> string \<Rightarrow> pyval \<Rightarrow> bool" where
  "get_bool_config cfg key dflt =
     (let config_value = get_config cfg key dflt in
      if \<not> py_truthy config_value then False
      else (let config_value_str_lower = py_lower (py_str config_value)
            in config_value_str_lower \<notin> set [''0'', ''false'', ''no'']))"

section \<open>Identifiers and messages\<close>

text \<open>\<open>RocketChatUser\<close>: a user name, the user's client object (unused), a nickname and
  a full name.\<close>

record RocketChatUser =
  person :: pyval
  client :: pyval
  nick :: pyval
  fullname :: pyval

text \<open>\<open>RocketChatUser.__init__(person, client=None, nick=None, fullname=None)\<close>.\<close>

definition RocketChatUser_init :: "pyval \<Rightarrow> pyval \<Rightarrow> pyval \<Rightarrow> pyval \<Rightarrow> RocketChatUser" where
  "RocketChatUser_init p c n f =
     \<lparr>person = p, client = c, nick = py_or n p, fullname = py_or f p\<rparr>"

text \<open>\<open>RocketChatUser.__str__\<close>.\<close>

definition RocketChatUser_str :: "RocketChatUser \<Rightarrow> pyval" where
  "RocketChatUser_str u = person u"

text \<open>\<open>RocketChat.build_identifier\<close>.\<close>

definition build_identifier :: "pyval \<Rightarrow> RocketChatUser" where
  "build_identifier username = RocketChatUser_init username PyNone PyNone PyNone"

text \<open>
  What a caller can pass where an identifier is expected: a user (a \<open>Person\<close>, hence an
  \<open>Identifier\<close>), a room (Errbot's \<open>Room\<close>, an \<open>Identifier\<close> without the attribute
  \<open>person\<close>), or any other value.
\<close>

datatype obj = User RocketChatUser | Room pyval | Value pyval

fun isinstance_Identifier :: "obj \<Rightarrow> bool" where
  "isinstance_Identifier (User u) = True"
| "isinstance_Identifier (Room r) = True"
| "isinstance_Identifier (Value v) = False"

fun isinstance_Room :: "obj \<Rightarrow> bool" where
  "isinstance_Room (Room r) = True"
| "isinstance_Room _ = False"

text \<open>The attribute \<open>identifier.person\<close>.\<close>

fun obj_person :: "obj \<Rightarrow> exn + pyval" where
  "obj_person (User u) = Inr (person u)"
| "obj_person _ = Inl AttributeError"

text \<open>Errbot's \<open>Message\<close>: body, sender, receiver and the \<open>extras\<close> dictionary, whose
  entries are payload values (key \<open>msg_info\<close>, set at 2QTGO) or message objects
  (key \<open>orig_msg\<close>, set at 5QXGV and 3YRCT).\<close>

datatype message = Message (body: pyval) (frm: obj) (to: obj) (extras: "(string \<times> extra) list")
  and extra = ExtraVal pyval | ExtraMsg message

datatype status = ONLINE | OFFLINE

text \<open>The closure \<open>query_user_callback\<close> of \<open>create_reply_msg\<close>, with the identifier and
  the text it captures.\<close>

datatype callback = query_user_callback obj pyval

section \<open>The backend object\<close>

text \<open>
  The calls the backend makes on its collaborators (the Meteor client, the Errbot core,
  the heartbeat function, \<open>time.sleep\<close>) and its own assignments to the client reference
  and to the two events, in the order they happen. Debug logging is left out.
\<close>

datatype action =
    MeteorClient_new pyval
  | client_on string
  | client_connect
  | client_login pyval pyval
  | client_subscribe string "pyval list"
  | client_close
  | client_remove_all_listeners
  | client_call string pyval "callback option"
  | read_connected bool
  | client_release
  | subscribing_done_set
  | subscribing_done_clear
  | meteor_closed_set
  | meteor_closed_clear
  | connect_callback
  | disconnect_callback
  | callback_presence obj status
  | callback_message message
  | reset_reconnection_count
  | super_send_message message
  | heartbeat_func
  | time_sleep pyval
  | patch_meteor_client
  | log_error
  | delay_reconnect
  | shutdown

text \<open>The Meteor client as the backend sees it: the events that have a listener, the
  attribute \<open>connected\<close>, and whether the client has emitted \<open>closed\<close>.\<close>

record MeteorClient =
  listeners :: "string list"
  connected :: bool
  closed_emitted :: bool

record backend =
  cfg :: sysconfig
  server_uri :: pyval
  login_username :: pyval
  login_password :: pyval
  bot_identifier :: obj
  meteor_client :: "MeteorClient option"
  subscribing_done_event :: bool
  meteor_closed_event :: bool
  trace :: "action list"

definition emit :: "action \<Rightarrow> backend \<Rightarrow> backend" where
  "emit a b = b\<lparr>trace := trace b @ [a]\<rparr>"

section \<open>Construction\<close>




section \<open>Receiving messages\<close>

text \<open>
  \<open>RocketChat._meteor_changed_callback\<close>. The loop over \<open>args\<close> is \<open>changed_loop\<close>; an
  exception raised for one record leaves the callback, so the records after it are not
  looked at.
\<close>

fun changed_loop :: "pyval list \<Rightarrow> backend \<Rightarrow> exn option \<times> backend" where
  "changed_loop [] b = (None, b)"
| "changed_loop (msg_info # rest) b =
     (case py_get msg_info ''msg'' of
        Inl e \<Rightarrow> (Some e, b)
      | Inr msg \<Rightarrow>
          if msg \<noteq> PyNone then
            (case py_getitem msg_info ''u'' of
               Inl e \<Rightarrow> (Some e, b)
             | Inr sender_info \<Rightarrow>
                 (case py_getitem sender_info ''username'' of
                    Inl e \<Rightarrow> (Some e, b)
                  | Inr sender_username \<Rightarrow>
                      if \<not> py_eq sender_username (login_username b) then
                        (let sender_identifier = build_identifier sender_username;
                             extras = [(''msg_info'', ExtraVal msg_info)];
                             msg_obj = Message msg (User sender_identifier) (bot_identifier b) extras
                         in changed_loop rest (emit (callback_message msg_obj) b))
                      else changed_loop rest b))
          else changed_loop rest b)"

definition meteor_changed_callback ::
  "string \<Rightarrow> pyval \<Rightarrow> pyval \<Rightarrow> pyval \<Rightarrow> backend \<Rightarrow> exn option \<times> backend" where
  "meteor_changed_callback collection ident flds cleared b =
     (if collection = ''stream-room-messages'' then
        (case py_get flds ''args'' of
           Inl e \<Rightarrow> (Some e, b)
         | Inr args \<Rightarrow> (case args of PyList records \<Rightarrow> changed_loop records b | _ \<Rightarrow> (None, b)))
      else (None, b))"

section \<open>Sending messages\<close>

text \<open>\<open>self._meteor_client.call(method, params, callback)\<close>: an \<open>AttributeError\<close> when
  the reference is \<open>None\<close>.\<close>

definition meteor_call :: "string \<Rightarrow> pyval \<Rightarrow> callback option \<Rightarrow> backend \<Rightarrow> exn + backend" where
  "meteor_call method params cb b =
     (case meteor_client b of
        None \<Rightarrow> Inl AttributeError
      | Some c \<Rightarrow> Inr (emit (client_call method params cb) b))"

text \<open>\<open>RocketChat.send_rocketchat_message\<close>.\<close>

definition send_rocketchat_message :: "pyval \<Rightarrow> backend \<Rightarrow> exn + backend" where
  "send_rocketchat_message params b =
     (let params' = (case params of PyList xs \<Rightarrow> params | _ \<Rightarrow> PyList [params])
      in meteor_call ''sendMessage'' params' None b)"

text \<open>\<open>RocketChat.send_message\<close>. The call of the super method, which dispatches the
  message to the plugins, is recorded; an entry of \<open>extras\<close> that is a message has no
  subscript, and one that is a payload value has no attribute \<open>extras\<close>.\<close>

definition send_message :: "message \<Rightarrow> backend \<Rightarrow> exn option \<times> backend" where
  "send_message mess b =
     (let b1 = emit (super_send_message mess) b in
      case map_of (extras mess) ''orig_msg'' of
        None \<Rightarrow> (Some (KeyError ''orig_msg''), b1)
      | Some (ExtraVal v) \<Rightarrow> (Some AttributeError, b1)
      | Some (ExtraMsg orig_msg) \<Rightarrow>
          (case map_of (extras orig_msg) ''msg_info'' of
             None \<Rightarrow> (Some (KeyError ''msg_info''), b1)
           | Some (ExtraMsg m) \<Rightarrow> (Some TypeError, b1)
           | Some (ExtraVal msg_info) \<Rightarrow>
               (case py_getitem msg_info ''rid'' of
                  Inl e \<Rightarrow> (Some e, b1)
                | Inr room_id \<Rightarrow>
                    (case send_rocketchat_message
                            (PyDict [(''rid'', room_id), (''msg'', body mess)]) b1 of
                       Inl e \<Rightarrow> (Some e, b1)
                     | Inr b2 \<Rightarrow> (None, b2)))))"

text \<open>
  Errbot's \<open>split_and_send_message\<close> (framework code): it calls \<open>send_message\<close> on a copy
  of the message for each part of the body, in order. How the body is cut into parts
  is the parameter \<open>split\<close>.
\<close>

fun send_parts :: "message \<Rightarrow> pyval list \<Rightarrow> backend \<Rightarrow> exn option \<times> backend" where
  "send_parts msg [] b = (None, b)"
| "send_parts msg (part # parts) b =
     (case send_message (Message part (frm msg) (to msg) (extras msg)) b of
        (Some e, b1) \<Rightarrow> (Some e, b1)
      | (None, b1) \<Rightarrow> send_parts msg parts b1)"

definition split_and_send_message ::
  "(pyval \<Rightarrow> pyval list) \<Rightarrow> message \<Rightarrow> backend \<Rightarrow> exn option \<times> backend" where
  "split_and_send_message split msg b = send_parts msg (split (body msg)) b"

text \<open>\<open>RocketChat.create_reply_msg\<close>: the call is looked up on the client reference
  first, then the parameter \<open>identifier.person\<close> is evaluated.\<close>

definition create_reply_msg :: "obj \<Rightarrow> pyval \<Rightarrow> backend \<Rightarrow> exn + backend" where
  "create_reply_msg identifier text b =
     (case meteor_client b of
        None \<Rightarrow> Inl AttributeError
      | Some c \<Rightarrow>
          (case obj_person identifier of
             Inl e \<Rightarrow> Inl e
           | Inr p \<Rightarrow>
               meteor_call ''createDirectMessage'' (PyList [p])
                 (Some (query_user_callback identifier text)) b))"

definition GROUPCHAT_NICK_PREFIXED :: string where
  "GROUPCHAT_NICK_PREFIXED = ''GROUPCHAT_NICK_PREFIXED''"

text \<open>\<open>RocketChat.prefix_groupchat_reply\<close>: it does nothing.\<close>

definition prefix_groupchat_reply :: "message \<Rightarrow> obj \<Rightarrow> backend \<Rightarrow> backend" where
  "prefix_groupchat_reply msg identifier b = b"

text \<open>\<open>RocketChat.send\<close>. The result is the returned value (\<open>True\<close> or \<open>None\<close>) or the
  exception raised.\<close>

definition send ::
  "(pyval \<Rightarrow> pyval list) \<Rightarrow> obj \<Rightarrow> pyval \<Rightarrow> message option \<Rightarrow> bool \<Rightarrow> backend
     \<Rightarrow> (exn + pyval) \<times> backend" where
  "send split identifier text in_reply_to groupchat_nick_reply b =
     (case identifier of
        Value v \<Rightarrow>
          (Inl (ValueError (''Argument `identifier` is not Identifier instance: '' @ py_repr v)), b)
      | _ \<Rightarrow>
          (case in_reply_to of
             None \<Rightarrow>
               (case create_reply_msg identifier text b of
                  Inl e \<Rightarrow> (Inl e, b)
                | Inr b1 \<Rightarrow> (Inr (PyBool True), b1))
           | Some orig \<Rightarrow>
               (let msg_obj = Message text (to orig) identifier [(''orig_msg'', ExtraMsg orig)]
                in case bot_config (cfg b) GROUPCHAT_NICK_PREFIXED of
                     None \<Rightarrow> (Inl AttributeError, b)
                   | Some group_chat_prefix \<Rightarrow>
                       (let b0 = (if isinstance_Room identifier \<and>
                                     (py_truthy group_chat_prefix \<or> groupchat_nick_reply)
                                  then prefix_groupchat_reply msg_obj (frm orig) b
                                  else b)
                        in case split_and_send_message split msg_obj b0 of
                             (Some e, b1) \<Rightarrow> (Inl e, b1)
                           | (None, b1) \<Rightarrow> (Inr PyNone, b1)))))"

text \<open>The closure \<open>query_user_callback(*args, **kwargs)\<close> when the Meteor client calls
  it: \<open>args[1]\<close> is an \<open>IndexError\<close> with fewer than two arguments.\<close>

definition run_query_user_callback ::
  "(pyval \<Rightarrow> pyval list) \<Rightarrow> callback \<Rightarrow> pyval list \<Rightarrow> backend \<Rightarrow> (exn + pyval) \<times> backend" where
  "run_query_user_callback split cb args b =
     (case cb of
        query_user_callback identifier text \<Rightarrow>
          (if length args < 2 then (Inl IndexError, b)
           else (let in_reply_to = Message text identifier (bot_identifier b)
                                     [(''msg_info'', ExtraVal (args ! 1))]
                 in send split identifier text (Some in_reply_to) False b)))"

section \<open>The callbacks of a session\<close>

text \<open>\<open>RocketChat._meteor_closed_callback\<close>.\<close>

definition meteor_closed_callback :: "pyval \<Rightarrow> pyval \<Rightarrow> backend \<Rightarrow> backend" where
  "meteor_closed_callback code reason b =
     (let b1 = emit subscribing_done_set (b\<lparr>subscribing_done_event := True\<rparr>)
      in emit meteor_closed_set (b1\<lparr>meteor_closed_event := True\<rparr>))"

text \<open>
  The Meteor client emits \<open>closed\<close>: its attribute \<open>connected\<close> becomes false and the
  listener hooked at 7MOJX, if any, is called. A client the backend has released has
  no listener left.
\<close>

definition client_emit_closed :: "backend \<Rightarrow> backend" where
  "client_emit_closed b =
     (case meteor_client b of
        None \<Rightarrow> b
      | Some c \<Rightarrow>
          (let b1 = b\<lparr>meteor_client := Some (c\<lparr>connected := False, closed_emitted := True\<rparr>)\<rparr>
           in if ''closed'' \<in> set (listeners c) then meteor_closed_callback PyNone PyNone b1
              else b1))"

text \<open>
  \<open>self._meteor_client.close()\<close>. As the comments of the callers say, closing the client
  causes \<open>_meteor_closed_callback\<close> to be called; a client that has emitted \<open>closed\<close>
  already does not emit it again.
\<close>

definition meteor_close :: "backend \<Rightarrow> exn + backend" where
  "meteor_close b =
     (case meteor_client b of
        None \<Rightarrow> Inl AttributeError
      | Some c \<Rightarrow>
          (let b1 = emit client_close b
           in Inr (if closed_emitted c then b1 else client_emit_closed b1)))"

text \<open>\<open>RocketChat._meteor_connected_callback\<close>.\<close>

definition meteor_connected_callback :: "backend \<Rightarrow> exn + backend" where
  "meteor_connected_callback b =
     (case meteor_client b of
        None \<Rightarrow> Inl AttributeError
      | Some c \<Rightarrow> Inr (emit (client_login (login_username b) (login_password b)) b))"

text \<open>\<open>RocketChat._meteor_login_callback\<close>.\<close>

definition meteor_login_callback :: "pyval \<Rightarrow> pyval \<Rightarrow> backend \<Rightarrow> exn + backend" where
  "meteor_login_callback error_info success_info b =
     (if error_info \<noteq> PyNone then meteor_close b
      else (case meteor_client b of
              None \<Rightarrow> Inl AttributeError
            | Some c \<Rightarrow>
                Inr (emit (client_subscribe ''stream-room-messages''
                             [PyStr ''__my_messages__'', PyBool False]) b)))"

text \<open>\<open>RocketChat._meteor_subscribe_callback\<close>.\<close>

definition meteor_subscribe_callback :: "pyval \<Rightarrow> backend \<Rightarrow> exn + backend" where
  "meteor_subscribe_callback error_info b =
     (if error_info \<noteq> PyNone then meteor_close b
      else (let b1 = emit connect_callback b;
                b2 = emit (callback_presence (bot_identifier b) ONLINE) b1;
                b3 = emit reset_reconnection_count b2
            in Inr (emit subscribing_done_set (b3\<lparr>subscribing_done_event := True\<rparr>))))"

section \<open>One session\<close>

text \<open>
  What the outside does during one call of \<open>serve_once\<close>:
  \<^item> \<open>connect_exn\<close>: the exception \<open>connect()\<close> raises, if any;
  \<^item> \<open>login_reply\<close>: the arguments \<open>(error_info, success_info)\<close> of the login callback,
    or \<open>None\<close> when the server never answers the login;
  \<^item> \<open>subscribe_reply\<close>: the argument \<open>error_info\<close> of the subscribe callback, or \<open>None\<close>
    when the server never answers the subscription;
  \<^item> \<open>subscribing_wait\<close>, \<open>closed_wait\<close>: how a wait on an event that is not set ends;
  \<^item> \<open>float_exn v\<close>: the exception \<open>float(v)\<close> raises, if any;
  \<^item> \<open>connected_reads\<close>: the values of the attribute \<open>connected\<close> at the successive reads
    of the heartbeat loop, for as long as the client has not been closed from this side;
    a read of \<open>False\<close> is the server closing the connection;
  \<^item> \<open>heartbeat_exn k\<close>, \<open>sleep_exn k\<close>: the exception raised by call number \<open>k\<close> of the
    heartbeat function and of \<open>time.sleep\<close>, if any;
  \<^item> \<open>delay_exn\<close>: the exception raised while \<open>serve_forever\<close> sleeps before the next
    attempt, if any.
\<close>

datatype wait_end = Signalled | Interrupted exn | Forever

record session_env =
  connect_exn :: "exn option"
  login_reply :: "(pyval \<times> pyval) option"
  subscribe_reply :: "pyval option"
  subscribing_wait :: wait_end
  float_exn :: "pyval \<Rightarrow> exn option"
  connected_reads :: "bool list"
  heartbeat_exn :: "nat \<Rightarrow> exn option"
  sleep_exn :: "nat \<Rightarrow> exn option"
  closed_wait :: wait_end
  delay_exn :: "exn option"

text \<open>
  The callbacks run in the Meteor client's thread. An exception raised by a callback
  stays in that thread. The thread's part of a session is placed right after
  \<open>connect()\<close> returns: the main thread then only waits on the event.
\<close>

definition on_thread :: "exn + backend \<Rightarrow> backend \<Rightarrow> backend" where
  "on_thread r b = (case r of Inl e \<Rightarrow> b | Inr b' \<Rightarrow> b')"

definition transport_thread :: "session_env \<Rightarrow> backend \<Rightarrow> backend" where
  "transport_thread env b =
     (let b1 = on_thread (meteor_connected_callback b) b in
      case login_reply env of
        None \<Rightarrow> b1
      | Some (error_info, success_info) \<Rightarrow>
          (let b2 = on_thread (meteor_login_callback error_info success_info b1) b1 in
           if error_info \<noteq> PyNone then b2
           else (case subscribe_reply env of
                   None \<Rightarrow> b2
                 | Some sub_error \<Rightarrow> on_thread (meteor_subscribe_callback sub_error b2) b2)))"

text \<open>
  \<open>Event.wait()\<close>. The result \<open>None\<close> is a wait that never returns. \<open>Signalled\<close> is the
  server closing the connection during the wait, upon which the client emits
  \<open>closed\<close>.
\<close>

definition wait_subscribing_done :: "wait_end \<Rightarrow> backend \<Rightarrow> (exn option \<times> backend) option" where
  "wait_subscribing_done w b =
     (if subscribing_done_event b then Some (None, b)
      else (case w of
              Forever \<Rightarrow> None
            | Interrupted e \<Rightarrow> Some (Some e, b)
            | Signalled \<Rightarrow>
                (let b1 = client_emit_closed b
                 in if subscribing_done_event b1 then Some (None, b1) else None)))"

definition wait_meteor_closed :: "wait_end \<Rightarrow> backend \<Rightarrow> (exn option \<times> backend) option" where
  "wait_meteor_closed w b =
     (if meteor_closed_event b then Some (None, b)
      else (case w of
              Forever \<Rightarrow> None
            | Interrupted e \<Rightarrow> Some (Some e, b)
            | Signalled \<Rightarrow>
                (let b1 = client_emit_closed b
                 in if meteor_closed_event b1 then Some (None, b1) else None)))"

text \<open>The loop at 65ZNO; \<open>interval\<close> is the configured heartbeat interval, which
  \<open>time.sleep\<close> receives as a float, and \<open>k\<close> counts the calls of the heartbeat function
  so far. The result \<open>None\<close> is a loop still running when the reads are used up.\<close>

fun heartbeat_loop ::
  "session_env \<Rightarrow> pyval \<Rightarrow> nat \<Rightarrow> bool list \<Rightarrow> backend \<Rightarrow> (exn option \<times> backend) option" where
  "heartbeat_loop env interval k [] b =
     (case meteor_client b of
        None \<Rightarrow> Some (Some AttributeError, b)
      | Some c \<Rightarrow>
          if \<not> connected c then Some (None, emit (read_connected False) b)
          else None)"
| "heartbeat_loop env interval k (r # rest) b =
     (case meteor_client b of
        None \<Rightarrow> Some (Some AttributeError, b)
      | Some c \<Rightarrow>
          if \<not> connected c then Some (None, emit (read_connected False) b)
          else if \<not> r then Some (None, emit (read_connected False) (client_emit_closed b))
          else (let b1 = emit heartbeat_func (emit (read_connected True) b) in
                case heartbeat_exn env k of
                  Some e \<Rightarrow> Some (Some e, b1)
                | None \<Rightarrow>
                    (let b2 = emit (time_sleep interval) b1 in
                     case sleep_exn env k of
                       Some e \<Rightarrow> Some (Some e, b2)
                     | None \<Rightarrow> heartbeat_loop env interval (Suc k) rest b2)))"

text \<open>The heartbeat part of \<open>serve_once\<close>, entered when heartbeat is enabled.\<close>

definition run_heartbeat :: "session_env \<Rightarrow> backend \<Rightarrow> (exn option \<times> backend) option" where
  "run_heartbeat env b =
     (let hb_func = get_config (cfg b) HEARTBEAT_FUNC PyNone in
      if \<not> py_callable hb_func then Some (Some AssertionError, b)
      else (let heartbeat_interval = get_config (cfg b) HEARTBEAT_INTERVAL (PyInt 10) in
            case float_exn env heartbeat_interval of
              Some e \<Rightarrow> Some (Some e, b)
            | None \<Rightarrow> heartbeat_loop env heartbeat_interval 0 (connected_reads env) b))"

text \<open>The body of the second \<open>try\<close> of \<open>serve_once\<close>.\<close>

definition session_body ::
  "session_env \<Rightarrow> bool \<Rightarrow> backend \<Rightarrow> (exn option \<times> backend) option" where
  "session_body env heartbeat_enabled b =
     (case wait_subscribing_done (subscribing_wait env) b of
        None \<Rightarrow> None
      | Some (Some e, b1) \<Rightarrow> Some (Some e, b1)
      | Some (None, b1) \<Rightarrow>
          (case (if heartbeat_enabled then run_heartbeat env b1 else Some (None, b1)) of
             None \<Rightarrow> None
           | Some (Some e, b2) \<Rightarrow> Some (Some e, b2)
           | Some (None, b2) \<Rightarrow> wait_meteor_closed (closed_wait env) b2))"

text \<open>The \<open>except\<close> block around \<open>connect()\<close>, up to its \<open>raise\<close>.\<close>

definition connect_failed :: "backend \<Rightarrow> exn option \<times> backend" where
  "connect_failed b =
     (case meteor_client b of
        None \<Rightarrow> (Some AttributeError, b)
      | Some c \<Rightarrow>
          (None, b\<lparr>meteor_client := None,
                   subscribing_done_event := False, meteor_closed_event := False,
                   trace := trace b @ [client_remove_all_listeners, client_release,
                                       subscribing_done_clear, meteor_closed_clear]\<rparr>))"

text \<open>The \<open>finally\<close> block of \<open>serve_once\<close>.\<close>

definition final_cleanup :: "backend \<Rightarrow> exn option \<times> backend" where
  "final_cleanup b =
     (case meteor_client b of
        None \<Rightarrow> (Some AttributeError, b)
      | Some c \<Rightarrow>
          (None, b\<lparr>meteor_client := None,
                   subscribing_done_event := False, meteor_closed_event := False,
                   trace := trace b @ [client_remove_all_listeners, client_release,
                                       callback_presence (bot_identifier b) OFFLINE,
                                       disconnect_callback,
                                       subscribing_done_clear, meteor_closed_clear]\<rparr>))"

text \<open>Leaving through a block with outcome \<open>out\<close>: an exception of the block itself
  replaces it.\<close>

definition leave :: "exn option \<Rightarrow> exn option \<times> backend \<Rightarrow> exn option \<times> backend" where
  "leave out r = (case r of (Some e, b) \<Rightarrow> (Some e, b) | (None, b) \<Rightarrow> (out, b))"

definition callback_events :: "string list" where
  "callback_events =
     [''connected'', ''changed'', ''added'', ''removed'', ''failed'', ''reconnected'', ''closed'']"

text \<open>The first part of \<open>serve_once\<close>, up to and including the call of \<open>connect()\<close>:
  a new client with auto reconnect disabled, the seven callbacks hooked, the two
  events cleared.\<close>

definition session_start :: "backend \<Rightarrow> backend" where
  "session_start b =
     (let b1 = emit (MeteorClient_new (server_uri b))
                 (b\<lparr>meteor_client := Some \<lparr>listeners = [], connected = False, closed_emitted = False\<rparr>\<rparr>);
          b2 = b1\<lparr>meteor_client := map_option (\<lambda>c. c\<lparr>listeners := listeners c @ callback_events\<rparr>)
                                     (meteor_client b1),
                  trace := trace b1 @ map client_on callback_events\<rparr>;
          b3 = emit meteor_closed_clear
                 (emit subscribing_done_clear
                    (b2\<lparr>subscribing_done_event := False, meteor_closed_event := False\<rparr>))
      in emit client_connect b3)"

text \<open>The client once \<open>connect()\<close> has returned.\<close>

definition connect_returned :: "backend \<Rightarrow> backend" where
  "connect_returned b =
     b\<lparr>meteor_client := map_option (\<lambda>c. c\<lparr>connected := True\<rparr>) (meteor_client b)\<rparr>"

text \<open>
  \<open>RocketChat.serve_once\<close>. The result is \<open>None\<close> when the call never returns, and
  otherwise the exception it raises, if any, and the backend it leaves.
\<close>

definition serve_once :: "session_env \<Rightarrow> backend \<Rightarrow> (exn option \<times> backend) option" where
  "serve_once env b =
     (let b4 = session_start b
      in case connect_exn env of
           Some e \<Rightarrow>
             if is_Exception e then Some (leave (Some e) (connect_failed b4)) else Some (Some e, b4)
         | None \<Rightarrow>
             (let b5 = transport_thread env (connect_returned b4);
                  heartbeat_enabled = get_bool_config (cfg b) HEARTBEAT_ENABLED PyNone
              in case session_body env heartbeat_enabled b5 of
                   None \<Rightarrow> None
                 | Some (None, b6) \<Rightarrow> Some (leave None (final_cleanup b6))
                 | Some (Some e, b6) \<Rightarrow>
                     if is_Exception e then
                       (case meteor_close b6 of
                          Inl e' \<Rightarrow> Some (leave (Some e') (final_cleanup b6))
                        | Inr b7 \<Rightarrow>
                            (case wait_meteor_closed (closed_wait env) b7 of
                               None \<Rightarrow> None
                             | Some (None, b8) \<Rightarrow> Some (leave (Some e) (final_cleanup b8))
                             | Some (Some e', b8) \<Rightarrow> Some (leave (Some e') (final_cleanup b8))))
                     else Some (leave (Some e) (final_cleanup b6))))"

section \<open>The reconnect loop\<close>

text \<open>\<open>RocketChat._patch_meteor_client\<close>.\<close>

definition patch_client :: "backend \<Rightarrow> backend" where
  "patch_client b =
     (let need_patch = get_bool_config (cfg b) PATCH_METEOR_CLIENT (PyBool True)
      in if need_patch then emit patch_meteor_client b else b)"

text \<open>
  The \<open>while True\<close> loop of \<open>serve_forever\<close>, one element of the list per call of
  \<open>serve_once\<close>. The result is \<open>None\<close> when the loop is still running after the last
  element, and otherwise the exception that leaves the loop, if any.
\<close>

fun serve_loop :: "bool \<Rightarrow> session_env list \<Rightarrow> backend \<Rightarrow> (exn option \<times> backend) option" where
  "serve_loop reconnect_enabled [] b = None"
| "serve_loop reconnect_enabled (env # envs) b =
     (case serve_once env b of
        None \<Rightarrow> None
      | Some (out, b1) \<Rightarrow>
          (case (case out of
                   None \<Rightarrow> Inr b1
                 | Some e \<Rightarrow> if is_Exception e then Inr (emit log_error b1) else Inl e) of
             Inl e \<Rightarrow> Some (Some e, b1)
           | Inr b2 \<Rightarrow>
               if reconnect_enabled then
                 (let b3 = emit delay_reconnect b2 in
                  case delay_exn env of
                    Some e \<Rightarrow> Some (Some e, b3)
                  | None \<Rightarrow> serve_loop reconnect_enabled envs b3)
               else Some (None, b2)))"

text \<open>\<open>RocketChat.serve_forever\<close>: \<open>KeyboardInterrupt\<close> ends it without an error, and
  \<open>shutdown\<close> is called on every way out.\<close>

definition serve_forever :: "session_env list \<Rightarrow> backend \<Rightarrow> (exn option \<times> backend) option" where
  "serve_forever envs b =
     (let b0 = patch_client b;
          reconnect_enabled = get_bool_config (cfg b) RECONNECT_ENABLED (PyBool True)
      in case serve_loop reconnect_enabled envs b0 of
           None \<Rightarrow> None
         | Some (out, b1) \<Rightarrow>
             (let b2 = emit shutdown b1
              in Some (if out = Some KeyboardInterrupt then None else out, b2)))"

section \<open>Classes of actions\<close>

text \<open>The actions of the callbacks of a session, and the actions that occur between
  \<open>connect()\<close> and the cleanup of a session: those and the ones of the heartbeat loop.\<close>

fun signal_action :: "action \<Rightarrow> bool" where
  "signal_action (client_login u p) = True"
| "signal_action (client_subscribe name params) = True"
| "signal_action client_close = True"
| "signal_action subscribing_done_set = True"
| "signal_action meteor_closed_set = True"
| "signal_action connect_callback = True"
| "signal_action (callback_presence who ONLINE) = True"
| "signal_action reset_reconnection_count = True"
| "signal_action _ = False"

fun session_action :: "action \<Rightarrow> bool" where
  "session_action (read_connected v) = True"
| "session_action heartbeat_func = True"
| "session_action (time_sleep interval) = True"
| "session_action a = signal_action a"

text \<open>
  \<open>grows P b b'\<close>: from \<open>b\<close> to \<open>b'\<close> the settings are the same, the trace has grown by
  actions of the class \<open>P\<close> only, and a client that was held is still held, with the
  same listeners.
\<close>

definition grows :: "(action \<Rightarrow> bool) \<Rightarrow> backend \<Rightarrow> backend \<Rightarrow> bool" where
  "grows P b b' =
     (cfg b' = cfg b \<and> server_uri b' = server_uri b \<and> login_username b' = login_username b \<and>
      login_password b' = login_password b \<and> bot_identifier b' = bot_identifier b \<and>
      (\<exists>tr. trace b' = trace b @ tr \<and> list_all P tr) \<and>
      (\<forall>c. meteor_client b = Some c
           \<longrightarrow> (\<exists>c'. meteor_client b' = Some c' \<and> listeners c' = listeners c)))"

text \<open>
  \<open>balanced b b'\<close>: from \<open>b\<close> to \<open>b'\<close> the heartbeat function has been called as many
  times as the attribute \<open>connected\<close> has been read as true. \<open>session_run b b'\<close>: the
  backend has gone from \<open>b\<close> to \<open>b'\<close> by session actions, in a balanced way.
\<close>

definition balanced :: "backend \<Rightarrow> backend \<Rightarrow> bool" where
  "balanced b b' =
     (\<exists>n. count_list (trace b') heartbeat_func = count_list (trace b) heartbeat_func + n \<and>
          count_list (trace b') (read_connected True) = count_list (trace b) (read_connected True) + n)"

definition session_run :: "backend \<Rightarrow> backend \<Rightarrow> bool" where
  "session_run b b' = (grows session_action b b' \<and> balanced b b')"

text \<open>What \<open>serve_once\<close> does before the session proper, and the actions of its way out:
  the \<open>finally\<close> block after a \<open>connect()\<close> that returned, the \<open>except\<close> block after a
  \<open>connect()\<close> that raised an \<open>Exception\<close>, nothing otherwise.\<close>

definition prologue :: "backend \<Rightarrow> action list" where
  "prologue b =
     MeteorClient_new (server_uri b) # map client_on callback_events @
     [subscribing_done_clear, meteor_closed_clear, client_connect]"

definition epilogue :: "session_env \<Rightarrow> backend \<Rightarrow> action list" where
  "epilogue env b =
     (case connect_exn env of
        None \<Rightarrow> [client_remove_all_listeners, client_release,
                 callback_presence (bot_identifier b) OFFLINE, disconnect_callback,
                 subscribing_done_clear, meteor_closed_clear]
      | Some e \<Rightarrow>
          if is_Exception e
          then [client_remove_all_listeners, client_release,
                subscribing_done_clear, meteor_closed_clear]
          else [])"

section \<open>Reading a message record\<close>

text \<open>
  What the data-changed callback reads from a message-info record: its body (the
  value under \<open>msg\<close>, \<open>None\<close> when there is none), and the user name of its sender (the
  value under \<open>username\<close> of the dictionary under \<open>u\<close>). A record is well formed when it
  is a dictionary and, if it has a body, names its sender.
\<close>

definition record_body :: "pyval \<Rightarrow> pyval" where
  "record_body r = (case py_get r ''msg'' of Inl e \<Rightarrow> PyNone | Inr v \<Rightarrow> v)"

definition record_sender :: "pyval \<Rightarrow> pyval option" where
  "record_sender r =
     (case py_getitem r ''u'' of
        Inl e \<Rightarrow> None
      | Inr u \<Rightarrow> (case py_getitem u ''username'' of Inl e \<Rightarrow> None | Inr n \<Rightarrow> Some n))"

definition sender_name :: "pyval \<Rightarrow> pyval" where
  "sender_name r = (case record_sender r of None \<Rightarrow> PyNone | Some n \<Rightarrow> n)"

definition is_dict :: "pyval \<Rightarrow> bool" where
  "is_dict r = (case r of PyDict kvs \<Rightarrow> True | _ \<Rightarrow> False)"

definition wellformed_record :: "pyval \<Rightarrow> bool" where
  "wellformed_record r = (is_dict r \<and> (record_body r \<noteq> PyNone \<longrightarrow> record_sender r \<noteq> None))"

text \<open>The records the callback dispatches: those with a body whose sender's user name
  does not equal the login user name.\<close>

definition dispatched :: "backend \<Rightarrow> pyval \<Rightarrow> bool" where
  "dispatched b r = (record_body r \<noteq> PyNone \<and> \<not> py_eq (sender_name r) (login_username b))"

section \<open>Sample inputs\<close>

text \<open>A configuration with the three required settings, the password coming from the
  environment, and the backend constructed from it.\<close>

definition sample_config :: sysconfig where
  "sample_config =
     \<lparr>environ = [''ROCKETCHAT_LOGIN_PASSWORD'' \<mapsto> ''secret''],
      bot_config = [''GROUPCHAT_NICK_PREFIXED'' \<mapsto> PyBool False],
      config_obj = Some [''SERVER_URI'' \<mapsto> PyStr ''ws://127.0.0.1:3000/websocket'',
                         ''LOGIN_USERNAME'' \<mapsto> PyStr ''errbot'']\<rparr>"

definition sample_backend :: backend where
  "sample_backend =
     \<lparr>cfg = sample_config,
      server_uri = PyStr ''ws://127.0.0.1:3000/websocket'',
      login_username = PyStr ''errbot'',
      login_password = PyBytes ''secret'',
      bot_identifier = User (build_identifier (PyStr ''errbot'')),
      meteor_client = None,
      subscribing_done_event = False, meteor_closed_event = False,
      trace = []\<rparr>"

text \<open>A configuration whose only setting is one environment variable.\<close>

definition env_config :: "string \<Rightarrow> string \<Rightarrow> sysconfig" where
  "env_config name v = \<lparr>environ = [name \<mapsto> v], bot_config = Map.empty, config_obj = None\<rparr>"

text \<open>Message-info records: one from the user \<open>alice\<close>, one from the bot itself, and one
  with a body but without sender.\<close>

definition alice_record :: pyval where
  "alice_record =
     PyDict [(''rid'', PyStr ''GENERAL''), (''msg'', PyStr ''hello''),
             (''u'', PyDict [(''username'', PyStr ''alice'')])]"

definition bot_record :: pyval where
  "bot_record =
     PyDict [(''rid'', PyStr ''GENERAL''), (''msg'', PyStr ''pong''),
             (''u'', PyDict [(''username'', PyStr ''errbot'')])]"

definition malformed_record :: pyval where
  "malformed_record = PyDict [(''rid'', PyStr ''GENERAL''), (''msg'', PyStr ''hi'')]"

text \<open>The sample backend during a session, after the callbacks have been hooked.\<close>

definition live_backend :: backend where
  "live_backend =
     sample_backend\<lparr>meteor_client :=
        Some \<lparr>listeners = callback_events, connected = True, closed_emitted = False\<rparr>\<rparr>"

definition alice :: obj where
  "alice = User (build_identifier (PyStr ''alice''))"

text \<open>
  Sessions. In \<open>quiet_env\<close> the login and the subscription succeed and the server closes
  the connection after three heartbeats, or while the main thread waits when there is
  no heartbeat. In \<open>refused_env\<close> the call of \<open>connect()\<close> raises; in \<open>auth_failed_env\<close> the
  login is rejected.
\<close>

definition quiet_env :: session_env where
  "quiet_env =
     \<lparr>connect_exn = None,
      login_reply = Some (PyNone, PyDict [(''id'', PyStr ''u1'')]),
      subscribe_reply = Some PyNone,
      subscribing_wait = Forever,
      float_exn = (\<lambda>v. None),
      connected_reads = [True, True, True, False],
      heartbeat_exn = (\<lambda>k. None),
      sleep_exn = (\<lambda>k. None),
      closed_wait = Signalled,
      delay_exn = None\<rparr>"

definition refused_env :: session_env where
  "refused_env = quiet_env\<lparr>connect_exn := Some (OtherException ''ConnectionRefusedError'')\<rparr>"

definition auth_failed_env :: session_env where
  "auth_failed_env = quiet_env\<lparr>login_reply := Some (PyDict [(''error'', PyInt 403)], PyNone)\<rparr>"

text \<open>The sample backend with reconnect disabled through the environment, and the
  sample backend during a session with a heartbeat function configured.\<close>

definition oneshot_backend :: backend where
  "oneshot_backend =
     sample_backend\<lparr>cfg := sample_config\<lparr>environ :=
        (environ sample_config)(''ROCKETCHAT_RECONNECT_ENABLED'' \<mapsto> ''no'')\<rparr>\<rparr>"

definition heartbeat_backend :: backend where
  "heartbeat_backend =
     live_backend\<lparr>cfg := sample_config\<lparr>config_obj :=
        Some [''HEARTBEAT_ENABLED'' \<mapsto> PyBool True,
              ''HEARTBEAT_FUNC'' \<mapsto> PyFunc ''beat'',
              ''HEARTBEAT_INTERVAL'' \<mapsto> PyStr ''0.01'']\<rparr>\<rparr>"

section \<open>Boolean configuration values\<close>

lemma str_nat_ne: "str_nat n \<noteq> []"
  by (subst str_nat.simps) simp

lemma digit_char_cases:
  "d < 10 \<Longrightarrow> digit_char d \<in> decimal_chars \<and> (digit_char d = CHR ''0'' \<longleftrightarrow> d = 0)"
proof -
  assume "d < 10"
  then show ?thesis by (simp add: digit_char_def decimal_chars_def)
qed

lemma str_nat_chars: "set (str_nat n) \<subseteq> decimal_chars"
proof (induction n rule: str_nat.induct)
  case (1 n)
  show ?case
  proof (cases "n < 10")
    case True
    then show ?thesis using digit_char_cases[of n] by (subst str_nat.simps) simp
  next
    case False
    have "n mod 10 < 10" by simp
    from digit_char_cases[OF this] 1[OF False] False show ?thesis
      by (subst str_nat.simps) simp
  qed
qed

lemma str_nat_zero: "str_nat n = ''0'' \<longleftrightarrow> n = 0"
proof (cases "n < 10")
  case True
  then show ?thesis using digit_char_cases[of n] by (subst str_nat.simps) simp
next
  case False
  have "length (str_nat n) \<ge> 2" using False str_nat_ne[of "n div 10"]
    by (subst str_nat.simps) (cases "str_nat (n div 10)"; simp)
  then show ?thesis using False by auto
qed

lemma decimal_chars_facts:
  "CHR ''-'' \<in> decimal_chars" "CHR ''f'' \<notin> decimal_chars" "CHR ''n'' \<notin> decimal_chars"
  "\<forall>c \<in> decimal_chars. lower_char c = c"
  by (simp_all add: decimal_chars_def lower_char_def)

lemma str_int_chars: "set (str_int n) \<subseteq> decimal_chars"
proof (cases "n < 0")
  case True
  then show ?thesis
    using str_nat_chars[of "nat (- n)"] decimal_chars_facts(1) by (simp add: str_int_def)
next
  case False
  then show ?thesis using str_nat_chars[of "nat n"] by (simp add: str_int_def)
qed

lemma py_lower_str_int: "py_lower (str_int n) = str_int n"
  unfolding py_lower_def using str_int_chars[of n] decimal_chars_facts(4)
  by (intro map_idI) blast

lemma str_int_false_words: "n \<noteq> 0 \<Longrightarrow> str_int n \<notin> set [''0'', ''false'', ''no'']"
proof -
  assume n: "n \<noteq> 0"
  have a: "str_int n \<noteq> ''0''"
  proof (cases "n < 0")
    case True
    then show ?thesis by (simp add: str_int_def)
  next
    case False
    then show ?thesis using n str_nat_zero[of "nat n"] by (simp add: str_int_def)
  qed
  have "CHR ''f'' \<notin> set (str_int n)" "CHR ''n'' \<notin> set (str_int n)"
    using str_int_chars[of n] decimal_chars_facts(2,3) by blast+
  then have "str_int n \<noteq> ''false''" "str_int n \<noteq> ''no''" by auto
  with a show ?thesis by simp
qed

lemma truthy_non_str:
  "py_truthy v \<Longrightarrow> (\<forall>s. v \<noteq> PyStr s) \<Longrightarrow> py_lower (py_str v) \<notin> set [''0'', ''false'', ''no'']"
proof (cases v)
  case (PyInt n)
  assume "py_truthy v"
  then show ?thesis using PyInt str_int_false_words[of n] by (simp add: py_lower_str_int)
next
  case (PyBool b)
  assume "py_truthy v"
  then show ?thesis using PyBool by (simp add: py_lower_def lower_char_def)
qed (auto simp: py_lower_def lower_char_def)

lemma get_bool_config_value:
  "get_bool_config config key dflt =
     (py_truthy (get_config config key dflt) \<and>
      py_lower (py_str (get_config config key dflt)) \<notin> set [''0'', ''false'', ''no''])"
  by (simp add: get_bool_config_def Let_def)

text \<open>
  C3. The boolean config parser \<open>_get_bool_config\<close>: a string that is \<open>0\<close>, \<open>false\<close> or
  \<open>no\<close> up to the case of its letters parses to \<open>False\<close>; every other truthy value parses
  to \<open>True\<close>; \<open>None\<close>, \<open>0\<close>, the empty string and \<open>False\<close> parse to \<open>False\<close>; a value that is
  set neither in the environment nor in the config object parses to \<open>False\<close> with the
  default \<open>None\<close> and to \<open>True\<close> with the default \<open>True\<close>. In particular \<open>no\<close>, \<open>0\<close> and
  \<open>FALSE\<close> parse to \<open>False\<close> and \<open>yes\<close> parses to \<open>True\<close>.
\<close>

theorem get_bool_config_rule:
  "(\<forall>s. get_config config key dflt = PyStr s \<and> py_lower s \<in> {''0'', ''false'', ''no''}
        \<longrightarrow> \<not> get_bool_config config key dflt) \<and>
   (py_truthy (get_config config key dflt) \<and>
    (\<forall>s. get_config config key dflt = PyStr s \<longrightarrow> py_lower s \<notin> {''0'', ''false'', ''no''})
        \<longrightarrow> get_bool_config config key dflt) \<and>
   (get_config config key dflt \<in> {PyNone, PyInt 0, PyStr [], PyBool False}
        \<longrightarrow> \<not> get_bool_config config key dflt) \<and>
   (environ config (ENV_VAR_NAME_PREFIX @ key) = None \<and>
    (case config_obj config of None \<Rightarrow> True | Some obj \<Rightarrow> obj key = None)
        \<longrightarrow> \<not> get_bool_config config key PyNone \<and> get_bool_config config key (PyBool True)) \<and>
   (get_config config key dflt \<in> {PyStr ''no'', PyStr ''0'', PyStr ''FALSE''}
        \<longrightarrow> \<not> get_bool_config config key dflt) \<and>
   (get_config config key dflt = PyStr ''yes'' \<longrightarrow> get_bool_config config key dflt)"
proof (intro conjI allI impI)
  fix s
  assume "get_config config key dflt = PyStr s \<and> py_lower s \<in> {''0'', ''false'', ''no''}"
  then show "\<not> get_bool_config config key dflt"
    by (auto simp: get_bool_config_value)
next
  assume a: "py_truthy (get_config config key dflt) \<and>
    (\<forall>s. get_config config key dflt = PyStr s \<longrightarrow> py_lower s \<notin> {''0'', ''false'', ''no''})"
  show "get_bool_config config key dflt"
  proof (cases "\<exists>s. get_config config key dflt = PyStr s")
    case True
    then show ?thesis using a by (auto simp: get_bool_config_value)
  next
    case False
    then show ?thesis using a truthy_non_str[of "get_config config key dflt"]
      by (simp add: get_bool_config_value)
  qed
next
  assume "get_config config key dflt \<in> {PyNone, PyInt 0, PyStr [], PyBool False}"
  then show "\<not> get_bool_config config key dflt"
    by (auto simp: get_bool_config_value)
next
  assume a: "environ config (ENV_VAR_NAME_PREFIX @ key) = None \<and>
    (case config_obj config of None \<Rightarrow> True | Some obj \<Rightarrow> obj key = None)"
  then have "get_config config key PyNone = PyNone"
    by (auto simp: get_config_def split: option.splits)
  then show "\<not> get_bool_config config key PyNone"
    by (simp add: get_bool_config_value)
next
  assume a: "environ config (ENV_VAR_NAME_PREFIX @ key) = None \<and>
    (case config_obj config of None \<Rightarrow> True | Some obj \<Rightarrow> obj key = None)"
  then have "get_config config key (PyBool True) = PyBool True"
    by (auto simp: get_config_def split: option.splits)
  then show "get_bool_config config key (PyBool True)"
    by (simp add: get_bool_config_value py_lower_def lower_char_def)
next
  assume "get_config config key dflt \<in> {PyStr ''no'', PyStr ''0'', PyStr ''FALSE''}"
  then show "\<not> get_bool_config config key dflt"
    by (auto simp: get_bool_config_value py_lower_def lower_char_def)
next
  assume "get_config config key dflt = PyStr ''yes''"
  then show "get_bool_config config key dflt"
    by (simp add: get_bool_config_value py_lower_def lower_char_def)
qed

theorem get_bool_config_rule_witness:
  "\<not> get_bool_config (env_config ''ROCKETCHAT_RECONNECT_ENABLED'' ''FALSE'') RECONNECT_ENABLED (PyBool True) \<and>
   \<not> get_bool_config (env_config ''ROCKETCHAT_RECONNECT_ENABLED'' ''No'') RECONNECT_ENABLED (PyBool True) \<and>
   get_bool_config (env_config ''ROCKETCHAT_RECONNECT_ENABLED'' ''yes'') RECONNECT_ENABLED PyNone \<and>
   \<not> get_bool_config (env_config ''ROCKETCHAT_RECONNECT_ENABLED'' []) RECONNECT_ENABLED (PyBool True) \<and>
   \<not> get_bool_config sample_config RECONNECT_ENABLED PyNone \<and>
   get_bool_config sample_config RECONNECT_ENABLED (PyBool True)"
proof -
  let ?K = "''ROCKETCHAT_RECONNECT_ENABLED''"
  have g: "\<And>v d. get_config (env_config ?K v) RECONNECT_ENABLED d = PyStr v"
    by (simp add: get_config_def env_config_def RECONNECT_ENABLED_def ENV_VAR_NAME_PREFIX_def)
  have l: "py_lower ''FALSE'' = ''false''" "py_lower ''No'' = ''no''"
    by (simp_all add: py_lower_def lower_char_def)
  have absent: "environ sample_config (ENV_VAR_NAME_PREFIX @ RECONNECT_ENABLED) = None \<and>
      (case config_obj sample_config of None \<Rightarrow> True | Some obj \<Rightarrow> obj RECONNECT_ENABLED = None)"
    by (simp add: sample_config_def RECONNECT_ENABLED_def ENV_VAR_NAME_PREFIX_def)
  have 1: "\<not> get_bool_config (env_config ?K ''FALSE'') RECONNECT_ENABLED (PyBool True)"
    using get_bool_config_rule [of "env_config ?K ''FALSE''" RECONNECT_ENABLED "PyBool True"] g l
    by simp
  have 2: "\<not> get_bool_config (env_config ?K ''No'') RECONNECT_ENABLED (PyBool True)"
    using get_bool_config_rule [of "env_config ?K ''No''" RECONNECT_ENABLED "PyBool True"] g l
    by simp
  have 3: "get_bool_config (env_config ?K ''yes'') RECONNECT_ENABLED PyNone"
    using get_bool_config_rule [of "env_config ?K ''yes''" RECONNECT_ENABLED PyNone] g
    by simp
  have 4: "\<not> get_bool_config (env_config ?K []) RECONNECT_ENABLED (PyBool True)"
    using get_bool_config_rule [of "env_config ?K []" RECONNECT_ENABLED "PyBool True"] g
    by simp
  have 5: "\<not> get_bool_config sample_config RECONNECT_ENABLED PyNone \<and>
           get_bool_config sample_config RECONNECT_ENABLED (PyBool True)"
    using get_bool_config_rule [of sample_config RECONNECT_ENABLED PyNone] absent
    by blast
  from 1 2 3 4 5 show ?thesis by blast
qed

section \<open>Construction and identifiers\<close>



text \<open>
  C9. A \<open>RocketChatUser\<close> built from a user name with the nickname and the full name
  absent (\<open>None\<close> or empty) has the user name as its nickname and as its full name, and
  its string form is the user name; so has the user \<open>build_identifier\<close> creates.
\<close>

theorem user_defaults:
  "n \<in> {PyNone, PyStr []} \<Longrightarrow> f \<in> {PyNone, PyStr []} \<Longrightarrow>
     nick (RocketChatUser_init p c n f) = p \<and>
     fullname (RocketChatUser_init p c n f) = p \<and>
     RocketChatUser_str (RocketChatUser_init p c n f) = p \<and>
     nick (build_identifier p) = p \<and> fullname (build_identifier p) = p \<and>
     RocketChatUser_str (build_identifier p) = p"
  by (auto simp: RocketChatUser_init_def RocketChatUser_str_def build_identifier_def py_or_def)

theorem user_defaults_witness:
  "PyNone \<in> {PyNone, PyStr []} \<and> PyStr [] \<in> {PyNone, PyStr []} \<and>
   nick (RocketChatUser_init (PyStr ''alice'') PyNone PyNone (PyStr [])) = PyStr ''alice'' \<and>
   fullname (RocketChatUser_init (PyStr ''alice'') PyNone PyNone (PyStr [])) = PyStr ''alice'' \<and>
   RocketChatUser_str (RocketChatUser_init (PyStr ''alice'') PyNone PyNone (PyStr [])) = PyStr ''alice''"
  using user_defaults [of PyNone "PyStr []" "PyStr ''alice''" PyNone] by simp

section \<open>Sending and receiving\<close>

lemma emit_fields [simp]:
  "cfg (emit a b) = cfg b" "server_uri (emit a b) = server_uri b"
  "login_username (emit a b) = login_username b" "login_password (emit a b) = login_password b"
  "bot_identifier (emit a b) = bot_identifier b" "meteor_client (emit a b) = meteor_client b"
  "subscribing_done_event (emit a b) = subscribing_done_event b"
  "meteor_closed_event (emit a b) = meteor_closed_event b"
  "trace (emit a b) = trace b @ [a]"
  by (simp_all add: emit_def)

text \<open>
  C10. A call of \<open>send\<close> whose identifier is not an \<open>Identifier\<close> instance raises
  \<open>ValueError\<close> and leaves the backend as it was: no call on the Meteor client, no
  message, no change of state.
\<close>

theorem send_rejects_non_identifier:
  "\<not> isinstance_Identifier identifier \<Longrightarrow>
     \<exists>error_msg. send split identifier text in_reply_to groupchat_nick_reply b
                  = (Inl (ValueError error_msg), b)"
  by (cases "identifier") (simp_all add: send_def)

theorem send_rejects_non_identifier_witness:
  "\<not> isinstance_Identifier (Value (PyStr ''alice'')) \<and>
   (\<exists>error_msg. send (\<lambda>t. [t]) (Value (PyStr ''alice'')) (PyStr ''hi'') None False live_backend
                  = (Inl (ValueError error_msg), live_backend))"
  using send_rejects_non_identifier [of "Value (PyStr ''alice'')" "\<lambda>t. [t]" "PyStr ''hi''" None False live_backend]
  by simp

lemma changed_loop_prefix:
  "list_all wellformed_record pre \<Longrightarrow>
   changed_loop (pre @ rest) b =
     changed_loop rest
       (b\<lparr>trace := trace b @
          map (\<lambda>r. callback_message
                      (Message (record_body r) (User (build_identifier (sender_name r)))
                         (bot_identifier b) [(''msg_info'', ExtraVal r)]))
              (filter (dispatched b) pre)\<rparr>)"
proof (induction pre arbitrary: b)
  case Nil
  then show ?case by simp
next
  case (Cons r rs)
  from Cons.prems have wf: "wellformed_record r" and tail: "list_all wellformed_record rs"
    by simp_all
  from wf obtain kvs where r: "r = PyDict kvs"
    by (cases r) (simp_all add: wellformed_record_def is_dict_def)
  have d: "\<And>t. dispatched (b\<lparr>trace := t\<rparr>) = dispatched b"
    by (rule ext) (simp add: dispatched_def)
  show ?case
  proof (cases "dispatched b r")
    case False
    have skip: "changed_loop ((r # rs) @ rest) b = changed_loop (rs @ rest) b"
    proof (cases "record_body r = PyNone")
      case True
      then show ?thesis using r by (simp add: record_body_def split: option.splits)
    next
      case body: False
      with wf obtain n where n: "record_sender r = Some n"
        by (auto simp: wellformed_record_def)
      with False body have "py_eq n (login_username b)"
        by (simp add: dispatched_def sender_name_def)
      then show ?thesis using r n body
        by (auto simp: record_body_def record_sender_def split: option.splits sum.splits)
    qed
    show ?thesis using Cons.IH[OF tail, of b] False by (simp only: skip) simp
  next
    case True
    then have body: "record_body r \<noteq> PyNone" by (simp add: dispatched_def)
    with wf obtain n where n: "record_sender r = Some n"
      by (auto simp: wellformed_record_def)
    with True have neq: "\<not> py_eq n (login_username b)"
      by (simp add: dispatched_def sender_name_def)
    let ?m = "Message (record_body r) (User (build_identifier n)) (bot_identifier b)
                [(''msg_info'', ExtraVal r)]"
    have step: "changed_loop ((r # rs) @ rest) b = changed_loop (rs @ rest) (emit (callback_message ?m) b)"
      using r n body neq
      by (auto simp: record_body_def record_sender_def Let_def split: option.splits sum.splits)
    have sn: "sender_name r = n" using n by (simp add: sender_name_def)
    show ?thesis
      using Cons.IH[OF tail, of "emit (callback_message ?m) b"] True
      by (simp only: step) (simp add: d sn emit_def)
  qed
qed

lemma changed_loop_malformed:
  assumes bad: "\<not> wellformed_record bad"
  shows "\<exists>e. changed_loop (bad # rest) b = (Some e, b)"
proof (cases "is_dict bad")
  case False
  then have "py_get bad ''msg'' = Inl AttributeError"
    by (cases bad) (simp_all add: is_dict_def)
  then show ?thesis by simp
next
  case True
  then obtain kvs where r: "bad = PyDict kvs" by (cases bad) (simp_all add: is_dict_def)
  from bad True have body: "record_body bad \<noteq> PyNone" and none: "record_sender bad = None"
    by (simp_all add: wellformed_record_def)
  from body r obtain msg where msg: "py_get bad ''msg'' = Inr msg" "msg \<noteq> PyNone"
    by (auto simp: record_body_def split: option.splits)
  show ?thesis
  proof (cases "py_getitem bad ''u''")
    case (Inl e)
    with msg show ?thesis by simp
  next
    case (Inr u)
    with none obtain e where "py_getitem u ''username'' = Inl e"
      by (cases "py_getitem u ''username''") (simp_all add: record_sender_def)
    with msg Inr show ?thesis by simp
  qed
qed

text \<open>
  C6 (as stated) fails on a data-change event with a malformed record: the first record
  below has a body and no sender, the subscript \<open>msg_info['u']\<close> raises \<open>KeyError\<close>,
  and the record of \<open>alice\<close> after it, with a non-empty body and a sender other than
  the bot, is never dispatched.
\<close>

theorem changed_callback_counterexample:
  "record_body alice_record = PyStr ''hello'' \<and>
   record_sender alice_record = Some (PyStr ''alice'') \<and>
   login_username live_backend = PyStr ''errbot'' \<and>
   meteor_changed_callback ''stream-room-messages'' (PyStr ''id'')
      (PyDict [(''args'', PyList [malformed_record, alice_record])]) (PyDict []) live_backend
     = (Some (KeyError ''u''), live_backend)"
  by (simp add: meteor_changed_callback_def malformed_record_def alice_record_def
        record_body_def record_sender_def live_backend_def sample_backend_def)

text \<open>
  C6 (amended). A data-change event of another collection dispatches nothing. In an
  event of the message stream whose records are all well formed, the callback returns
  normally and has dispatched, in order, exactly one message for each record that has
  a body and whose sender's user name does not equal the login user name, and no
  other message: the message carries that body, the identifier built from the
  sender's user name, the bot as receiver, and the record itself under \<open>msg_info\<close>. In
  an event with a malformed record, the callback has dispatched exactly those messages
  for the records before the first malformed one, and raises there. A record with a
  non-empty body and a sender whose name does not equal the login user name is
  dispatched; a record whose sender's name equals the login user name is not; between
  strings, equal means the same string.
\<close>

theorem changed_callback_dispatch:
  "(collection \<noteq> ''stream-room-messages''
      \<longrightarrow> meteor_changed_callback collection ident flds cleared b = (None, b)) \<and>
   (py_get flds ''args'' = Inr (PyList records) \<and> list_all wellformed_record records
      \<longrightarrow> meteor_changed_callback ''stream-room-messages'' ident flds cleared b =
            (None, b\<lparr>trace := trace b @
               map (\<lambda>r. callback_message
                           (Message (record_body r) (User (build_identifier (sender_name r)))
                              (bot_identifier b) [(''msg_info'', ExtraVal r)]))
                   (filter (dispatched b) records)\<rparr>)) \<and>
   (py_get flds ''args'' = Inr (PyList (records @ bad # rest)) \<and>
    list_all wellformed_record records \<and> \<not> wellformed_record bad
      \<longrightarrow> (\<exists>e. meteor_changed_callback ''stream-room-messages'' ident flds cleared b =
            (Some e, b\<lparr>trace := trace b @
               map (\<lambda>r. callback_message
                           (Message (record_body r) (User (build_identifier (sender_name r)))
                              (bot_identifier b) [(''msg_info'', ExtraVal r)]))
                   (filter (dispatched b) records)\<rparr>))) \<and>
   (\<forall>r n. record_body r \<notin> {PyNone, PyStr []} \<and> record_sender r = Some n \<and>
          \<not> py_eq n (login_username b)
      \<longrightarrow> dispatched b r) \<and>
   (\<forall>r n. record_sender r = Some n \<and> py_eq n (login_username b) \<longrightarrow> \<not> dispatched b r) \<and>
   (\<forall>r n u. record_sender r = Some (PyStr n) \<and> login_username b = PyStr u
      \<longrightarrow> dispatched b r = (record_body r \<noteq> PyNone \<and> n \<noteq> u))"
proof (intro conjI impI allI)
  assume "collection \<noteq> ''stream-room-messages''"
  then show "meteor_changed_callback collection ident flds cleared b = (None, b)"
    by (simp add: meteor_changed_callback_def)
next
  assume a: "py_get flds ''args'' = Inr (PyList records) \<and> list_all wellformed_record records"
  then show "meteor_changed_callback ''stream-room-messages'' ident flds cleared b =
            (None, b\<lparr>trace := trace b @
               map (\<lambda>r. callback_message
                           (Message (record_body r) (User (build_identifier (sender_name r)))
                              (bot_identifier b) [(''msg_info'', ExtraVal r)]))
                   (filter (dispatched b) records)\<rparr>)"
    using changed_loop_prefix[of records "[]" b] by (simp add: meteor_changed_callback_def)
next
  let ?b1 = "b\<lparr>trace := trace b @
               map (\<lambda>r. callback_message
                           (Message (record_body r) (User (build_identifier (sender_name r)))
                              (bot_identifier b) [(''msg_info'', ExtraVal r)]))
                   (filter (dispatched b) records)\<rparr>"
  assume a: "py_get flds ''args'' = Inr (PyList (records @ bad # rest)) \<and>
    list_all wellformed_record records \<and> \<not> wellformed_record bad"
  then have "meteor_changed_callback ''stream-room-messages'' ident flds cleared b
      = changed_loop (bad # rest) ?b1"
    using changed_loop_prefix[of records "bad # rest" b] by (simp add: meteor_changed_callback_def)
  moreover from a changed_loop_malformed[of bad rest ?b1]
  obtain e where "changed_loop (bad # rest) ?b1 = (Some e, ?b1)" by blast
  ultimately show "\<exists>e. meteor_changed_callback ''stream-room-messages'' ident flds cleared b =
      (Some e, ?b1)"
    by simp
next
  fix r n
  assume "record_body r \<notin> {PyNone, PyStr []} \<and> record_sender r = Some n \<and>
          \<not> py_eq n (login_username b)"
  then show "dispatched b r" by (simp add: dispatched_def sender_name_def)
next
  fix r n
  assume "record_sender r = Some n \<and> py_eq n (login_username b)"
  then show "\<not> dispatched b r" by (simp add: dispatched_def sender_name_def)
next
  fix r n u
  assume "record_sender r = Some (PyStr n) \<and> login_username b = PyStr u"
  then show "dispatched b r = (record_body r \<noteq> PyNone \<and> n \<noteq> u)"
    by (simp add: dispatched_def sender_name_def)
qed

theorem changed_callback_dispatch_witness:
  "meteor_changed_callback ''stream-room-messages'' (PyStr ''id'')
      (PyDict [(''args'', PyList [alice_record, bot_record])]) (PyDict []) live_backend
     = (None, live_backend\<lparr>trace :=
          [callback_message
             (Message (PyStr ''hello'') alice (bot_identifier live_backend)
                [(''msg_info'', ExtraVal alice_record)])]\<rparr>) \<and>
   (\<exists>e. meteor_changed_callback ''stream-room-messages'' (PyStr ''id'')
           (PyDict [(''args'', PyList [alice_record, malformed_record, alice_record])])
           (PyDict []) live_backend
     = (Some e, live_backend\<lparr>trace :=
          [callback_message
             (Message (PyStr ''hello'') alice (bot_identifier live_backend)
                [(''msg_info'', ExtraVal alice_record)])]\<rparr>)) \<and>
   dispatched live_backend alice_record \<and> \<not> dispatched live_backend bot_record"
proof -
  let ?flds = "PyDict [(''args'', PyList [alice_record, bot_record])]"
  let ?flds2 = "PyDict [(''args'', PyList [alice_record, malformed_record, alice_record])]"
  have args: "py_get ?flds ''args'' = Inr (PyList [alice_record, bot_record])" by simp
  have args2: "py_get ?flds2 ''args'' =
      Inr (PyList ([alice_record] @ malformed_record # [alice_record]))" by simp
  have facts:
    "record_body alice_record = PyStr ''hello''" "record_sender alice_record = Some (PyStr ''alice'')"
    "record_body bot_record = PyStr ''pong''" "record_sender bot_record = Some (PyStr ''errbot'')"
    "is_dict alice_record" "is_dict bot_record"
    by (simp_all add: alice_record_def bot_record_def record_body_def record_sender_def is_dict_def)
  have b: "login_username live_backend = PyStr ''errbot''" "trace live_backend = []"
    by (simp_all add: live_backend_def sample_backend_def)
  have wf: "list_all wellformed_record [alice_record, bot_record]"
    by (simp add: wellformed_record_def facts)
  have wf2: "list_all wellformed_record [alice_record]"
    by (simp add: wellformed_record_def facts)
  have bad: "\<not> wellformed_record malformed_record"
    by (simp add: wellformed_record_def malformed_record_def record_body_def record_sender_def)
  note thm1 = changed_callback_dispatch
         [of "''stream-room-messages''" "PyStr ''id''" ?flds "PyDict []" live_backend
             "[alice_record, bot_record]" malformed_record "[]"]
  note thm2 = changed_callback_dispatch
         [of "''stream-room-messages''" "PyStr ''id''" ?flds2 "PyDict []" live_backend
             "[alice_record]" malformed_record "[alice_record]"]
  from thm1 facts(1,2) b(1)
  have da: "dispatched live_backend alice_record" by simp
  from thm1 facts(4) b(1)
  have db: "\<not> dispatched live_backend bot_record" by simp
  have sel: "filter (dispatched live_backend) [alice_record, bot_record] = [alice_record]"
    "filter (dispatched live_backend) [alice_record] = [alice_record]"
    using da db by simp_all
  from thm1 args wf
  have "meteor_changed_callback ''stream-room-messages'' (PyStr ''id'') ?flds (PyDict []) live_backend =
          (None, live_backend\<lparr>trace := trace live_backend @
             map (\<lambda>r. callback_message
                         (Message (record_body r) (User (build_identifier (sender_name r)))
                            (bot_identifier live_backend) [(''msg_info'', ExtraVal r)]))
                 (filter (dispatched live_backend) [alice_record, bot_record])\<rparr>)"
    by blast
  then have 1: "meteor_changed_callback ''stream-room-messages'' (PyStr ''id'') ?flds (PyDict []) live_backend
     = (None, live_backend\<lparr>trace :=
          [callback_message
             (Message (PyStr ''hello'') alice (bot_identifier live_backend)
                [(''msg_info'', ExtraVal alice_record)])]\<rparr>)"
    unfolding sel by (simp add: b facts sender_name_def alice_def)
  from thm2 args2 wf2 bad
  have "\<exists>e. meteor_changed_callback ''stream-room-messages'' (PyStr ''id'') ?flds2
               (PyDict []) live_backend =
          (Some e, live_backend\<lparr>trace := trace live_backend @
             map (\<lambda>r. callback_message
                         (Message (record_body r) (User (build_identifier (sender_name r)))
                            (bot_identifier live_backend) [(''msg_info'', ExtraVal r)]))
                 (filter (dispatched live_backend) [alice_record])\<rparr>)"
    by blast
  then have 2: "\<exists>e. meteor_changed_callback ''stream-room-messages'' (PyStr ''id'') ?flds2
           (PyDict []) live_backend
     = (Some e, live_backend\<lparr>trace :=
          [callback_message
             (Message (PyStr ''hello'') alice (bot_identifier live_backend)
                [(''msg_info'', ExtraVal alice_record)])]\<rparr>)"
    unfolding sel by (simp add: b facts sender_name_def alice_def)
  from 1 2 da db show ?thesis by blast
qed

lemma send_parts_ok:
  "meteor_client b = Some c \<Longrightarrow> map_of ex ''orig_msg'' = Some (ExtraMsg orig) \<Longrightarrow>
   map_of (extras orig) ''msg_info'' = Some (ExtraVal info) \<Longrightarrow>
   py_getitem info ''rid'' = Inr room_id \<Longrightarrow>
   send_parts (Message bd f t ex) parts b =
     (None, b\<lparr>trace := trace b @
        concat (map (\<lambda>part. [super_send_message (Message part f t ex),
                              client_call ''sendMessage''
                                (PyList [PyDict [(''rid'', room_id), (''msg'', part)]]) None])
                    parts)\<rparr>)"
proof (induction parts arbitrary: b)
  case Nil
  then show ?case by simp
next
  case (Cons part parts)
  let ?b1 = "b\<lparr>trace := trace b @
      [super_send_message (Message part f t ex),
       client_call ''sendMessage'' (PyList [PyDict [(''rid'', room_id), (''msg'', part)]]) None]\<rparr>"
  have one: "send_message (Message part f t ex) b = (None, ?b1)"
    using Cons.prems
    by (simp add: send_message_def send_rocketchat_message_def meteor_call_def emit_def Let_def)
  have c1: "meteor_client ?b1 = Some c" using Cons.prems(1) by simp
  from Cons.IH[OF c1 Cons.prems(2,3,4)] one show ?case by simp
qed

text \<open>
  C7 (as stated) fails when the backend holds no Meteor client, as it does before the
  first session and from the \<open>finally\<close> block of \<open>serve_once\<close> on: the call raises
  \<open>AttributeError\<close>, issues nothing and does not return \<open>True\<close>.
\<close>

theorem send_without_reply_counterexample:
  "isinstance_Identifier alice \<and> meteor_client sample_backend = None \<and>
   send (\<lambda>t. [t]) alice (PyStr ''hi'') None False sample_backend
     = (Inl AttributeError, sample_backend)"
  by (simp add: send_def alice_def create_reply_msg_def sample_backend_def)

text \<open>
  C7 (amended). While the backend holds a Meteor client, a call of \<open>send\<close> with a user
  identifier and no reply context issues exactly one call, of method
  \<open>createDirectMessage\<close> with the user name and the resolution callback, issues no
  \<open>sendMessage\<close>, and returns \<open>True\<close>. When the client later calls the callback with
  \<open>(error, result)\<close>, the re-entered \<open>send\<close> issues the \<open>sendMessage\<close> calls, one for each
  part of the text, each with the room id found under \<open>rid\<close> in \<open>result\<close>, the
  message-info record of the synthesized reply context.
\<close>

theorem send_without_reply:
  "meteor_client b = Some c \<Longrightarrow>
   send split (User u) text None groupchat_nick_reply b =
     (Inr (PyBool True),
      b\<lparr>trace := trace b @
         [client_call ''createDirectMessage'' (PyList [person u])
            (Some (query_user_callback (User u) text))]\<rparr>) \<and>
   (\<forall>b' c' err result room_id flag.
      meteor_client b' = Some c' \<and> py_getitem result ''rid'' = Inr room_id \<and>
      bot_config (cfg b') GROUPCHAT_NICK_PREFIXED = Some flag
      \<longrightarrow> run_query_user_callback split (query_user_callback (User u) text) [err, result] b' =
            (Inr PyNone,
             b'\<lparr>trace := trace b' @
                concat (map (\<lambda>part.
                   [super_send_message
                      (Message part (bot_identifier b') (User u)
                         [(''orig_msg'',
                           ExtraMsg (Message text (User u) (bot_identifier b')
                                       [(''msg_info'', ExtraVal result)]))]),
                    client_call ''sendMessage''
                      (PyList [PyDict [(''rid'', room_id), (''msg'', part)]]) None])
                   (split text))\<rparr>))"
proof (intro conjI allI impI)
  assume "meteor_client b = Some c"
  then show "send split (User u) text None groupchat_nick_reply b =
     (Inr (PyBool True),
      b\<lparr>trace := trace b @
         [client_call ''createDirectMessage'' (PyList [person u])
            (Some (query_user_callback (User u) text))]\<rparr>)"
    by (simp add: send_def create_reply_msg_def meteor_call_def emit_def)
next
  fix b' :: backend and c' err result room_id flag
  assume a: "meteor_client b' = Some c' \<and> py_getitem result ''rid'' = Inr room_id \<and>
      bot_config (cfg b') GROUPCHAT_NICK_PREFIXED = Some flag"
  let ?orig = "Message text (User u) (bot_identifier b') [(''msg_info'', ExtraVal result)]"
  from a have parts:
    "send_parts (Message text (bot_identifier b') (User u) [(''orig_msg'', ExtraMsg ?orig)])
       (split text) b' =
     (None, b'\<lparr>trace := trace b' @
        concat (map (\<lambda>part. [super_send_message
                                (Message part (bot_identifier b') (User u)
                                   [(''orig_msg'', ExtraMsg ?orig)]),
                              client_call ''sendMessage''
                                (PyList [PyDict [(''rid'', room_id), (''msg'', part)]]) None])
                    (split text))\<rparr>)"
    by (intro send_parts_ok[where c = c' and orig = ?orig and info = result]) simp_all
  show "run_query_user_callback split (query_user_callback (User u) text) [err, result] b' =
            (Inr PyNone,
             b'\<lparr>trace := trace b' @
                concat (map (\<lambda>part.
                   [super_send_message
                      (Message part (bot_identifier b') (User u)
                         [(''orig_msg'', ExtraMsg ?orig)]),
                    client_call ''sendMessage''
                      (PyList [PyDict [(''rid'', room_id), (''msg'', part)]]) None])
                   (split text))\<rparr>)"
    using a parts
    by (simp add: run_query_user_callback_def send_def split_and_send_message_def Let_def)
qed

theorem send_without_reply_witness:
  "send (\<lambda>t. [t]) alice (PyStr ''hi'') None False live_backend =
     (Inr (PyBool True),
      live_backend\<lparr>trace :=
         [client_call ''createDirectMessage'' (PyList [PyStr ''alice''])
            (Some (query_user_callback alice (PyStr ''hi'')))]\<rparr>) \<and>
   run_query_user_callback (\<lambda>t. [t]) (query_user_callback alice (PyStr ''hi''))
     [PyNone, PyDict [(''rid'', PyStr ''DM1'')]] live_backend =
     (Inr PyNone,
      live_backend\<lparr>trace :=
         [super_send_message
            (Message (PyStr ''hi'') (bot_identifier live_backend) alice
               [(''orig_msg'',
                 ExtraMsg (Message (PyStr ''hi'') alice (bot_identifier live_backend)
                             [(''msg_info'', ExtraVal (PyDict [(''rid'', PyStr ''DM1'')]))]))]),
          client_call ''sendMessage''
            (PyList [PyDict [(''rid'', PyStr ''DM1''), (''msg'', PyStr ''hi'')]]) None]\<rparr>)"
proof -
  let ?c = "\<lparr>listeners = callback_events, connected = True, closed_emitted = False\<rparr>"
  let ?u = "build_identifier (PyStr ''alice'')"
  have c: "meteor_client live_backend = Some ?c" by (simp add: live_backend_def)
  have t: "trace live_backend = []" by (simp add: live_backend_def sample_backend_def)
  have p: "person ?u = PyStr ''alice''"
    by (simp add: build_identifier_def RocketChatUser_init_def)
  have pre: "meteor_client live_backend = Some ?c \<and>
      py_getitem (PyDict [(''rid'', PyStr ''DM1'')]) ''rid'' = Inr (PyStr ''DM1'') \<and>
      bot_config (cfg live_backend) GROUPCHAT_NICK_PREFIXED = Some (PyBool False)"
    by (simp add: live_backend_def sample_backend_def sample_config_def GROUPCHAT_NICK_PREFIXED_def)
  note r = send_without_reply [OF c, of "\<lambda>t. [t]" ?u "PyStr ''hi''" False]
  from r have 1: "send (\<lambda>t. [t]) (User ?u) (PyStr ''hi'') None False live_backend =
     (Inr (PyBool True),
      live_backend\<lparr>trace := trace live_backend @
         [client_call ''createDirectMessage'' (PyList [person ?u])
            (Some (query_user_callback (User ?u) (PyStr ''hi'')))]\<rparr>)"
    by (rule conjunct1)
  from r pre have 2: "run_query_user_callback (\<lambda>t. [t]) (query_user_callback (User ?u) (PyStr ''hi''))
       [PyNone, PyDict [(''rid'', PyStr ''DM1'')]] live_backend =
            (Inr PyNone,
             live_backend\<lparr>trace := trace live_backend @
                concat (map (\<lambda>part.
                   [super_send_message
                      (Message part (bot_identifier live_backend) (User ?u)
                         [(''orig_msg'',
                           ExtraMsg (Message (PyStr ''hi'') (User ?u) (bot_identifier live_backend)
                                       [(''msg_info'', ExtraVal (PyDict [(''rid'', PyStr ''DM1'')]))]))]),
                    client_call ''sendMessage''
                      (PyList [PyDict [(''rid'', PyStr ''DM1''), (''msg'', part)]]) None])
                   ((\<lambda>t. [t]) (PyStr ''hi'')))\<rparr>)"
    by blast
  from 1 2 show ?thesis by (simp add: t p alice_def)
qed

section \<open>Sessions\<close>

lemma growsI:
  "cfg b' = cfg b \<Longrightarrow> server_uri b' = server_uri b \<Longrightarrow> login_username b' = login_username b \<Longrightarrow>
   login_password b' = login_password b \<Longrightarrow> bot_identifier b' = bot_identifier b \<Longrightarrow>
   trace b' = trace b @ tr \<Longrightarrow> list_all P tr \<Longrightarrow>
   (\<And>c. meteor_client b = Some c \<Longrightarrow> \<exists>c'. meteor_client b' = Some c' \<and> listeners c' = listeners c) \<Longrightarrow>
   grows P b b'"
  unfolding grows_def by blast

lemma grows_fields:
  "grows P b b' \<Longrightarrow> cfg b' = cfg b \<and> server_uri b' = server_uri b \<and>
     login_username b' = login_username b \<and> login_password b' = login_password b \<and>
     bot_identifier b' = bot_identifier b"
  unfolding grows_def by blast

lemma grows_trace: "grows P b b' \<Longrightarrow> \<exists>tr. trace b' = trace b @ tr \<and> list_all P tr"
  unfolding grows_def by blast

lemma grows_client:
  "grows P b b' \<Longrightarrow> meteor_client b = Some c \<Longrightarrow>
     \<exists>c'. meteor_client b' = Some c' \<and> listeners c' = listeners c"
  unfolding grows_def by blast

lemma grows_refl: "grows P b b"
  by (simp add: grows_def)

lemma grows_trans:
  assumes ab: "grows P a b" and bc: "grows P b c"
  shows "grows P a c"
proof -
  from grows_trace[OF ab] obtain t1 where t1: "trace b = trace a @ t1" "list_all P t1"
    by blast
  from grows_trace[OF bc] obtain t2 where t2: "trace c = trace b @ t2" "list_all P t2"
    by blast
  have tr: "trace c = trace a @ (t1 @ t2)" "list_all P (t1 @ t2)"
    using t1 t2 by simp_all
  have cl: "\<exists>x'. meteor_client c = Some x' \<and> listeners x' = listeners x"
    if x: "meteor_client a = Some x" for x
  proof -
    from grows_client[OF ab x] obtain y where y: "meteor_client b = Some y" "listeners y = listeners x"
      by blast
    from grows_client[OF bc y(1)] y(2) show ?thesis by simp
  qed
  from grows_fields[OF ab] grows_fields[OF bc] tr cl show ?thesis
    by (intro growsI[where tr = "t1 @ t2"]) simp_all
qed

lemma grows_mono:
  assumes g: "grows P b b'" and pq: "\<And>a. P a \<Longrightarrow> Q a"
  shows "grows Q b b'"
proof -
  from grows_trace[OF g] obtain tr where tr: "trace b' = trace b @ tr" "list_all P tr" by blast
  from tr(2) pq have q: "list_all Q tr" by (simp add: list_all_iff)
  from grows_fields[OF g] tr(1) q grows_client[OF g] show ?thesis
    by (intro growsI[where tr = tr]) simp_all
qed

lemma signal_is_session: "signal_action a \<Longrightarrow> session_action a"
  by (cases a) simp_all

lemma grows_session: "grows signal_action b b' \<Longrightarrow> grows session_action b b'"
  using signal_is_session by (rule grows_mono[rotated])

lemma grows_emit: "P a \<Longrightarrow> grows P b (emit a b)"
  by (simp add: grows_def)

lemma grows_closed_callback: "grows signal_action b (meteor_closed_callback code reason b)"
  by (simp add: grows_def meteor_closed_callback_def Let_def)

lemma grows_emit_closed: "grows signal_action b (client_emit_closed b)"
proof (cases "meteor_client b")
  case None
  then show ?thesis by (simp add: client_emit_closed_def grows_refl)
next
  case (Some c)
  let ?b1 = "b\<lparr>meteor_client := Some (c\<lparr>connected := False, closed_emitted := True\<rparr>)\<rparr>"
  have 1: "grows signal_action b ?b1" using Some by (simp add: grows_def)
  have 2: "grows signal_action ?b1 (meteor_closed_callback PyNone PyNone ?b1)"
    by (rule grows_closed_callback)
  show ?thesis using Some 1 grows_trans[OF 1 2] by (simp add: client_emit_closed_def Let_def)
qed

lemma grows_close: "meteor_close b = Inr b' \<Longrightarrow> grows signal_action b b'"
proof -
  assume a: "meteor_close b = Inr b'"
  then obtain c where c: "meteor_client b = Some c"
    by (cases "meteor_client b") (simp_all add: meteor_close_def)
  have 1: "grows signal_action b (emit client_close b)" by (simp add: grows_emit)
  have 2: "grows signal_action (emit client_close b) (client_emit_closed (emit client_close b))"
    by (rule grows_emit_closed)
  from a c have "b' = emit client_close b \<or> b' = client_emit_closed (emit client_close b)"
    by (auto simp: meteor_close_def Let_def split: if_splits)
  then show ?thesis using 1 grows_trans[OF 1 2] by auto
qed

lemma grows_connected_callback: "meteor_connected_callback b = Inr b' \<Longrightarrow> grows signal_action b b'"
  by (auto simp: meteor_connected_callback_def grows_emit split: option.splits)

lemma grows_login_callback: "meteor_login_callback e s b = Inr b' \<Longrightarrow> grows signal_action b b'"
  by (auto simp: meteor_login_callback_def grows_emit grows_close split: option.splits if_splits)

lemma grows_subscribe_callback: "meteor_subscribe_callback e b = Inr b' \<Longrightarrow> grows signal_action b b'"
proof (cases "e = PyNone")
  case False
  assume "meteor_subscribe_callback e b = Inr b'"
  then show ?thesis using False by (simp add: meteor_subscribe_callback_def grows_close)
next
  case True
  assume "meteor_subscribe_callback e b = Inr b'"
  then show ?thesis using True
    by (auto simp: meteor_subscribe_callback_def grows_def Let_def)
qed

lemma grows_on_thread: "(\<And>b'. r = Inr b' \<Longrightarrow> grows P b b') \<Longrightarrow> grows P b (on_thread r b)"
  by (cases r) (simp_all add: on_thread_def grows_refl)

lemma grows_thread: "grows signal_action b (transport_thread env b)"
proof -
  let ?b1 = "on_thread (meteor_connected_callback b) b"
  have 1: "grows signal_action b ?b1" by (rule grows_on_thread) (rule grows_connected_callback)
  show ?thesis
  proof (cases "login_reply env")
    case None
    then show ?thesis using 1 by (simp add: transport_thread_def Let_def)
  next
    case (Some p)
    obtain e s where p: "p = (e, s)" by (cases p)
    let ?b2 = "on_thread (meteor_login_callback e s ?b1) ?b1"
    have "grows signal_action ?b1 ?b2" by (rule grows_on_thread) (rule grows_login_callback)
    with 1 have 2: "grows signal_action b ?b2" by (rule grows_trans)
    show ?thesis
    proof (cases "e \<noteq> PyNone \<or> subscribe_reply env = None")
      case True
      then show ?thesis using Some p 2 by (auto simp: transport_thread_def Let_def)
    next
      case False
      then obtain se where se: "subscribe_reply env = Some se" and e: "e = PyNone" by auto
      have "grows signal_action ?b2 (on_thread (meteor_subscribe_callback se ?b2) ?b2)"
        by (rule grows_on_thread) (rule grows_subscribe_callback)
      with 2 have "grows signal_action b (on_thread (meteor_subscribe_callback se ?b2) ?b2)"
        by (rule grows_trans)
      then show ?thesis using Some p se e by (simp add: transport_thread_def Let_def)
    qed
  qed
qed

lemma grows_wait_subscribing:
  "wait_subscribing_done w b = Some (out, b') \<Longrightarrow> grows signal_action b b'"
  using grows_emit_closed[of b]
  by (auto simp: wait_subscribing_done_def grows_refl Let_def split: if_splits wait_end.splits)

lemma grows_wait_closed:
  "wait_meteor_closed w b = Some (out, b') \<Longrightarrow> grows signal_action b b'"
  using grows_emit_closed[of b]
  by (auto simp: wait_meteor_closed_def grows_refl Let_def split: if_splits wait_end.splits)

lemma count_list_absent: "a \<notin> set xs \<Longrightarrow> count_list xs a = 0"
  by (induction xs) auto

lemma grows_count:
  assumes g: "grows P b b'" and a: "\<not> P a"
  shows "count_list (trace b') a = count_list (trace b) a"
proof -
  from grows_trace[OF g] obtain tr where tr: "trace b' = trace b @ tr" "list_all P tr" by blast
  from tr(2) a have "a \<notin> set tr" by (auto simp: list_all_iff)
  then show ?thesis using tr(1) by (simp add: count_list_absent)
qed

lemma balanced_refl: "balanced b b"
  by (simp add: balanced_def)

lemma balanced_trans: "balanced a b \<Longrightarrow> balanced b c \<Longrightarrow> balanced a c"
  unfolding balanced_def
proof (elim exE conjE)
  fix n m
  assume "count_list (trace b) heartbeat_func = count_list (trace a) heartbeat_func + n"
    "count_list (trace b) (read_connected True) = count_list (trace a) (read_connected True) + n"
    "count_list (trace c) heartbeat_func = count_list (trace b) heartbeat_func + m"
    "count_list (trace c) (read_connected True) = count_list (trace b) (read_connected True) + m"
  then have "count_list (trace c) heartbeat_func = count_list (trace a) heartbeat_func + (n + m) \<and>
    count_list (trace c) (read_connected True) = count_list (trace a) (read_connected True) + (n + m)"
    by simp
  then show "\<exists>n. count_list (trace c) heartbeat_func = count_list (trace a) heartbeat_func + n \<and>
    count_list (trace c) (read_connected True) = count_list (trace a) (read_connected True) + n"
    by (rule exI)
qed

lemma signal_balanced: "grows signal_action b b' \<Longrightarrow> balanced b b'"
  using grows_count[of signal_action b b' heartbeat_func]
        grows_count[of signal_action b b' "read_connected True"]
  by (simp add: balanced_def)

lemma session_run_refl: "session_run b b"
  by (simp add: session_run_def grows_refl balanced_refl)

lemma session_run_trans: "session_run a b \<Longrightarrow> session_run b c \<Longrightarrow> session_run a c"
  unfolding session_run_def using grows_trans balanced_trans by blast

lemma signal_run: "grows signal_action b b' \<Longrightarrow> session_run b b'"
  by (simp add: session_run_def grows_session signal_balanced)

lemma run_grows: "session_run b b' \<Longrightarrow> grows session_action b b'"
  by (simp add: session_run_def)

lemma run_emit_other:
  "session_action a \<Longrightarrow> a \<noteq> heartbeat_func \<Longrightarrow> a \<noteq> read_connected True \<Longrightarrow>
     session_run b (emit a b)"
  by (simp add: session_run_def grows_def balanced_def)

lemma run_tick: "session_run b (emit heartbeat_func (emit (read_connected True) b))"
proof -
  have "balanced b (emit heartbeat_func (emit (read_connected True) b))"
    unfolding balanced_def by (rule exI[of _ 1]) simp
  then show ?thesis by (simp add: session_run_def grows_def)
qed

lemma run_loop: "heartbeat_loop env iv k reads b = Some (out, b') \<Longrightarrow> session_run b b'"
proof (induction reads arbitrary: k b)
  case Nil
  have "session_run b (emit (read_connected False) b)"
    by (rule run_emit_other) simp_all
  with Nil show ?case
    by (auto simp: session_run_refl split: option.splits if_splits)
next
  case (Cons r rest)
  show ?case
  proof (cases "meteor_client b")
    case None
    with Cons.prems show ?thesis by (simp add: session_run_refl)
  next
    case (Some c)
    let ?b1 = "emit heartbeat_func (emit (read_connected True) b)"
    let ?b2 = "emit (time_sleep iv) ?b1"
    have g1: "session_run b ?b1" by (rule run_tick)
    have "session_run ?b1 ?b2" by (rule run_emit_other) simp_all
    with g1 have g2: "session_run b ?b2" by (rule session_run_trans)
    have "session_run (client_emit_closed b) (emit (read_connected False) (client_emit_closed b))"
      by (rule run_emit_other) simp_all
    with signal_run[OF grows_emit_closed]
    have gc: "session_run b (emit (read_connected False) (client_emit_closed b))"
      by (rule session_run_trans)
    have gf: "session_run b (emit (read_connected False) b)"
      by (rule run_emit_other) simp_all
    consider (off) "\<not> connected c" | (drop) "connected c" "\<not> r"
      | (hb) e where "connected c" "r" "heartbeat_exn env k = Some e"
      | (sl) e where "connected c" "r" "heartbeat_exn env k = None" "sleep_exn env k = Some e"
      | (go) "connected c" "r" "heartbeat_exn env k = None" "sleep_exn env k = None"
      by (cases "heartbeat_exn env k"; cases "sleep_exn env k"; auto)
    then show ?thesis
    proof cases
      case off
      with Cons.prems Some gf show ?thesis by auto
    next
      case drop
      with Cons.prems Some gc show ?thesis by auto
    next
      case hb
      with Cons.prems Some g1 show ?thesis by auto
    next
      case sl
      with Cons.prems Some g2 show ?thesis by (auto simp: Let_def)
    next
      case go
      with Cons.prems Some have "heartbeat_loop env iv (Suc k) rest ?b2 = Some (out, b')"
        by (simp add: Let_def)
      from session_run_trans[OF g2 Cons.IH[OF this]] show ?thesis .
    qed
  qed
qed

lemma run_heartbeat_run: "run_heartbeat env b = Some (out, b') \<Longrightarrow> session_run b b'"
  by (auto simp: run_heartbeat_def Let_def session_run_refl run_loop split: if_splits option.splits)

lemma run_body:
  assumes "session_body env hb b = Some (out, b')"
  shows "session_run b b'"
proof -
  from assms obtain o1 b1 where w: "wait_subscribing_done (subscribing_wait env) b = Some (o1, b1)"
    by (cases "wait_subscribing_done (subscribing_wait env) b") (auto simp: session_body_def)
  have g1: "session_run b b1"
    by (rule signal_run[OF grows_wait_subscribing[OF w]])
  show ?thesis
  proof (cases o1)
    case (Some e)
    with assms w g1 show ?thesis by (simp add: session_body_def)
  next
    case None
    from assms w None obtain o2 b2 where
      h: "(if hb then run_heartbeat env b1 else Some (None, b1)) = Some (o2, b2)"
      by (cases "if hb then run_heartbeat env b1 else Some (None, b1)") (auto simp: session_body_def)
    have "session_run b1 b2"
      using h run_heartbeat_run[of env b1 o2 b2] by (cases hb) (simp_all add: session_run_refl)
    with g1 have g2: "session_run b b2" by (rule session_run_trans)
    show ?thesis
    proof (cases o2)
      case (Some e)
      with assms w None h g2 show ?thesis by (simp add: session_body_def)
    next
      case n2: None
      with assms w None h have "wait_meteor_closed (closed_wait env) b2 = Some (out, b')"
        by (simp add: session_body_def)
      from session_run_trans[OF g2 signal_run[OF grows_wait_closed[OF this]]] show ?thesis .
    qed
  qed
qed

lemma session_start_facts:
  "cfg (session_start b) = cfg b" "server_uri (session_start b) = server_uri b"
  "login_username (session_start b) = login_username b"
  "login_password (session_start b) = login_password b"
  "bot_identifier (session_start b) = bot_identifier b"
  "trace (session_start b) = trace b @ prologue b"
  "meteor_client (session_start b) =
     Some \<lparr>listeners = callback_events, connected = False, closed_emitted = False\<rparr>"
  "\<not> subscribing_done_event (session_start b)" "\<not> meteor_closed_event (session_start b)"
  by (simp_all add: session_start_def prologue_def Let_def emit_def)

lemma connect_returned_facts:
  "cfg (connect_returned b) = cfg b" "server_uri (connect_returned b) = server_uri b"
  "login_username (connect_returned b) = login_username b"
  "login_password (connect_returned b) = login_password b"
  "bot_identifier (connect_returned b) = bot_identifier b"
  "trace (connect_returned b) = trace b"
  "subscribing_done_event (connect_returned b) = subscribing_done_event b"
  "meteor_closed_event (connect_returned b) = meteor_closed_event b"
  "meteor_client (connect_returned b) = map_option (\<lambda>c. c\<lparr>connected := True\<rparr>) (meteor_client b)"
  by (simp_all add: connect_returned_def)

text \<open>The backend a session hands to its cleanup, and the backend the cleanup leaves.\<close>

lemma final_cleanup_held:
  "meteor_client b = Some c \<Longrightarrow>
   final_cleanup b =
     (None, b\<lparr>meteor_client := None,
              subscribing_done_event := False, meteor_closed_event := False,
              trace := trace b @ [client_remove_all_listeners, client_release,
                                  callback_presence (bot_identifier b) OFFLINE,
                                  disconnect_callback,
                                  subscribing_done_clear, meteor_closed_clear]\<rparr>)"
  by (simp add: final_cleanup_def)

lemma serve_once_connected:
  assumes run: "serve_once env b = Some (out, b')" and conn: "connect_exn env = None"
  shows "\<exists>bX. session_run (transport_thread env (connect_returned (session_start b))) bX \<and>
              b' = bX\<lparr>meteor_client := None,
                      subscribing_done_event := False, meteor_closed_event := False,
                      trace := trace bX @ [client_remove_all_listeners, client_release,
                                           callback_presence (bot_identifier bX) OFFLINE,
                                           disconnect_callback,
                                           subscribing_done_clear, meteor_closed_clear]\<rparr>"
proof -
  let ?b4 = "connect_returned (session_start b)"
  let ?b5 = "transport_thread env ?b4"
  let ?hb = "get_bool_config (cfg b) HEARTBEAT_ENABLED PyNone"
  obtain c4 where c4: "meteor_client ?b4 = Some c4"
    by (simp add: connect_returned_facts session_start_facts)
  from grows_client[OF grows_thread c4] obtain c5 where c5: "meteor_client ?b5 = Some c5"
    by blast
  have fin: "\<exists>c. meteor_client bX = Some c" if "session_run ?b5 bX" for bX
    using grows_client[OF run_grows[OF that] c5] by blast
  from run conn obtain o6 b6 where body: "session_body env ?hb ?b5 = Some (o6, b6)"
    by (cases "session_body env ?hb ?b5") (auto simp: serve_once_def Let_def)
  have g6: "session_run ?b5 b6" by (rule run_body[OF body])
  from fin[OF g6] obtain c6 where c6: "meteor_client b6 = Some c6" by blast
  have direct: ?thesis if "b' = snd (final_cleanup b6)"
    using that g6 final_cleanup_held[OF c6] by (intro exI[of _ b6]) simp
  show ?thesis
  proof (cases o6)
    case None
    with run conn body final_cleanup_held[OF c6] have "b' = snd (final_cleanup b6)"
      by (simp add: serve_once_def Let_def leave_def)
    then show ?thesis by (rule direct)
  next
    case (Some e)
    show ?thesis
    proof (cases "is_Exception e")
      case False
      with run conn body Some final_cleanup_held[OF c6] have "b' = snd (final_cleanup b6)"
        by (simp add: serve_once_def Let_def leave_def)
      then show ?thesis by (rule direct)
    next
      case True
      from c6 obtain b7 where cl: "meteor_close b6 = Inr b7"
        by (simp add: meteor_close_def Let_def)
      have g7: "session_run ?b5 b7"
        by (rule session_run_trans[OF g6 signal_run[OF grows_close[OF cl]]])
      from run conn body Some True cl obtain o8 b8 where
        w: "wait_meteor_closed (closed_wait env) b7 = Some (o8, b8)"
        by (cases "wait_meteor_closed (closed_wait env) b7") (auto simp: serve_once_def Let_def)
      have g8: "session_run ?b5 b8"
        by (rule session_run_trans[OF g7 signal_run[OF grows_wait_closed[OF w]]])
      from fin[OF g8] obtain c8 where c8: "meteor_client b8 = Some c8" by blast
      from run conn body Some True cl w final_cleanup_held[OF c8]
      have "b' = snd (final_cleanup b8)"
        by (cases o8) (simp_all add: serve_once_def Let_def leave_def)
      then show ?thesis
        using g8 final_cleanup_held[OF c8] by (intro exI[of _ b8]) simp
    qed
  qed
qed

lemma serve_once_shape:
  assumes run: "serve_once env b = Some (out, b')"
  shows "cfg b' = cfg b \<and> server_uri b' = server_uri b \<and> login_username b' = login_username b \<and>
     login_password b' = login_password b \<and> bot_identifier b' = bot_identifier b \<and>
     (\<exists>mid. trace b' = trace b @ prologue b @ mid @ epilogue env b \<and>
            list_all session_action mid \<and> (connect_exn env \<noteq> None \<longrightarrow> mid = []))"
proof (cases "connect_exn env")
  case None
  let ?b4 = "connect_returned (session_start b)"
  let ?b5 = "transport_thread env ?b4"
  from serve_once_connected[OF run None] obtain bX where
    g0: "session_run ?b5 bX" and
    b': "b' = bX\<lparr>meteor_client := None,
                      subscribing_done_event := False, meteor_closed_event := False,
                      trace := trace bX @ [client_remove_all_listeners, client_release,
                                           callback_presence (bot_identifier bX) OFFLINE,
                                           disconnect_callback,
                                           subscribing_done_clear, meteor_closed_clear]\<rparr>"
    by blast
  have g4: "grows session_action ?b4 bX"
    by (rule grows_trans[OF grows_session[OF grows_thread] run_grows[OF g0]])
  from grows_trace[OF g4] obtain mid where
    mid: "trace bX = trace ?b4 @ mid" "list_all session_action mid" by blast
  from grows_fields[OF g4] have f: "cfg bX = cfg b" "server_uri bX = server_uri b"
    "login_username bX = login_username b" "login_password bX = login_password b"
    "bot_identifier bX = bot_identifier b"
    by (simp_all add: connect_returned_facts session_start_facts)
  have "trace b' = trace b @ prologue b @ mid @ epilogue env b"
    using b' mid(1) None f(5)
    by (simp add: connect_returned_facts session_start_facts epilogue_def)
  with mid(2) None f b' show ?thesis by auto
next
  case (Some e)
  show ?thesis
  proof (cases "is_Exception e")
    case True
    with run Some have "b' = snd (connect_failed (session_start b))"
      by (simp add: serve_once_def Let_def leave_def connect_failed_def session_start_facts)
    then show ?thesis using Some True
      by (simp add: connect_failed_def session_start_facts epilogue_def)
  next
    case False
    with run Some have "b' = session_start b"
      by (simp add: serve_once_def Let_def)
    then show ?thesis using Some False
      by (simp add: session_start_facts epilogue_def)
  qed
qed

lemma count_list_session:
  "list_all session_action mid \<Longrightarrow> \<not> session_action a \<Longrightarrow> count_list mid a = 0"
  by (rule count_list_absent) (auto simp: list_all_iff)

lemma prologue_counts:
  "count_list (prologue b) client_remove_all_listeners = 0"
  "count_list (prologue b) client_release = 0"
  "count_list (prologue b) (callback_presence who st) = 0"
  "count_list (prologue b) disconnect_callback = 0"
  "count_list (prologue b) shutdown = 0"
  "count_list (prologue b) log_error = 0"
  "count_list (prologue b) delay_reconnect = 0"
  "count_list (prologue b) heartbeat_func = 0"
  "count_list (prologue b) (read_connected v) = 0"
  "count_list (prologue b) (MeteorClient_new (server_uri b)) = 1"
  by (simp_all add: prologue_def callback_events_def)


lemma sample_start:
  "session_start sample_backend =
     sample_backend\<lparr>meteor_client :=
         Some \<lparr>listeners = callback_events, connected = False, closed_emitted = False\<rparr>,
       trace := prologue sample_backend\<rparr>"
  by (simp add: session_start_def prologue_def sample_backend_def Let_def emit_def)

lemma sample_no_heartbeat: "\<not> get_bool_config sample_config HEARTBEAT_ENABLED PyNone"
  by (simp add: get_bool_config_value get_config_def sample_config_def
        HEARTBEAT_ENABLED_def ENV_VAR_NAME_PREFIX_def)

lemma refused_run:
  "serve_once refused_env sample_backend =
     Some (Some (OtherException ''ConnectionRefusedError''),
           sample_backend\<lparr>trace := prologue sample_backend @
              [client_remove_all_listeners, client_release,
               subscribing_done_clear, meteor_closed_clear]\<rparr>)"
  unfolding serve_once_def sample_start
  by (simp add: refused_env_def quiet_env_def leave_def connect_failed_def sample_backend_def)

lemma quiet_run:
  "serve_once quiet_env sample_backend =
     Some (None,
           sample_backend\<lparr>trace := prologue sample_backend @
              [client_login (PyStr ''errbot'') (PyBytes ''secret''),
               client_subscribe ''stream-room-messages'' [PyStr ''__my_messages__'', PyBool False],
               connect_callback,
               callback_presence (bot_identifier sample_backend) ONLINE,
               reset_reconnection_count, subscribing_done_set,
               subscribing_done_set, meteor_closed_set,
               client_remove_all_listeners, client_release,
               callback_presence (bot_identifier sample_backend) OFFLINE,
               disconnect_callback, subscribing_done_clear, meteor_closed_clear]\<rparr>)"
  unfolding serve_once_def sample_start
  by (simp add: sample_no_heartbeat quiet_env_def connect_returned_def transport_thread_def
        on_thread_def meteor_connected_callback_def meteor_login_callback_def
        meteor_subscribe_callback_def session_body_def wait_subscribing_done_def
        wait_meteor_closed_def client_emit_closed_def meteor_closed_callback_def
        final_cleanup_def leave_def emit_def callback_events_def Let_def sample_backend_def)

lemma auth_failed_run:
  "serve_once auth_failed_env sample_backend =
     Some (None,
           sample_backend\<lparr>trace := prologue sample_backend @
              [client_login (PyStr ''errbot'') (PyBytes ''secret''), client_close,
               subscribing_done_set, meteor_closed_set,
               client_remove_all_listeners, client_release,
               callback_presence (bot_identifier sample_backend) OFFLINE,
               disconnect_callback, subscribing_done_clear, meteor_closed_clear]\<rparr>)"
  unfolding serve_once_def sample_start
  by (simp add: sample_no_heartbeat auth_failed_env_def quiet_env_def connect_returned_def
        transport_thread_def on_thread_def meteor_connected_callback_def meteor_login_callback_def
        meteor_close_def session_body_def wait_subscribing_done_def
        wait_meteor_closed_def client_emit_closed_def meteor_closed_callback_def
        final_cleanup_def leave_def emit_def callback_events_def Let_def sample_backend_def)

text \<open>
  C1 (as stated) fails when connect initiation raises: the \<open>except\<close> block around
  \<open>connect()\<close> unhooks the callbacks and releases the client, and \<open>serve_once\<close> re-raises
  without the offline presence and without the disconnect notification.
\<close>

theorem serve_once_cleanup_counterexample:
  "serve_once refused_env sample_backend =
     Some (Some (OtherException ''ConnectionRefusedError''),
           sample_backend\<lparr>trace := prologue sample_backend @
              [client_remove_all_listeners, client_release,
               subscribing_done_clear, meteor_closed_clear]\<rparr>) \<and>
   count_list (prologue sample_backend @
                 [client_remove_all_listeners, client_release,
                  subscribing_done_clear, meteor_closed_clear])
              (callback_presence (bot_identifier sample_backend) OFFLINE) = 0 \<and>
   count_list (prologue sample_backend @
                 [client_remove_all_listeners, client_release,
                  subscribing_done_clear, meteor_closed_clear])
              disconnect_callback = 0"
  using refused_run by (simp add: prologue_counts)

text \<open>
  C1 (amended). For every run of \<open>serve_once\<close> that returns or raises: when
  \<open>connect()\<close> returned, whatever failed afterwards (login, subscription, a wait, the
  heartbeat), each of the four cleanup actions (unhooking the callbacks, releasing
  the client, the offline presence, the disconnect notification) is executed exactly
  once; when \<open>connect()\<close> raised an \<open>Exception\<close>, the callbacks are unhooked and the
  client is released exactly once each, and neither the offline presence nor the
  disconnect notification is executed.
\<close>

theorem serve_once_cleanup:
  assumes run: "serve_once env b = Some (out, b')"
  shows "(connect_exn env = None \<longrightarrow>
            count_list (trace b') client_remove_all_listeners
              = count_list (trace b) client_remove_all_listeners + 1 \<and>
            count_list (trace b') client_release = count_list (trace b) client_release + 1 \<and>
            count_list (trace b') (callback_presence (bot_identifier b) OFFLINE)
              = count_list (trace b) (callback_presence (bot_identifier b) OFFLINE) + 1 \<and>
            count_list (trace b') disconnect_callback
              = count_list (trace b) disconnect_callback + 1) \<and>
         ((\<exists>e. connect_exn env = Some e \<and> is_Exception e) \<longrightarrow>
            count_list (trace b') client_remove_all_listeners
              = count_list (trace b) client_remove_all_listeners + 1 \<and>
            count_list (trace b') client_release = count_list (trace b) client_release + 1 \<and>
            count_list (trace b') (callback_presence (bot_identifier b) OFFLINE)
              = count_list (trace b) (callback_presence (bot_identifier b) OFFLINE) \<and>
            count_list (trace b') disconnect_callback = count_list (trace b) disconnect_callback)"
proof -
  from serve_once_shape[OF run] obtain mid where
    tr: "trace b' = trace b @ prologue b @ mid @ epilogue env b" and
    mid: "list_all session_action mid" by blast
  have m: "count_list mid client_remove_all_listeners = 0" "count_list mid client_release = 0"
    "count_list mid (callback_presence (bot_identifier b) OFFLINE) = 0"
    "count_list mid disconnect_callback = 0"
    using mid by (simp_all add: count_list_session)
  show ?thesis
    by (auto simp: tr m prologue_counts epilogue_def)
qed


theorem serve_once_cleanup_witness:
  "serve_once quiet_env sample_backend \<noteq> None \<and>
   serve_once refused_env sample_backend \<noteq> None \<and>
   (let b' = snd (the (serve_once quiet_env sample_backend)) in
      count_list (trace b') client_remove_all_listeners = 1 \<and>
      count_list (trace b') client_release = 1 \<and>
      count_list (trace b') (callback_presence (bot_identifier sample_backend) OFFLINE) = 1 \<and>
      count_list (trace b') disconnect_callback = 1) \<and>
   (let b' = snd (the (serve_once refused_env sample_backend)) in
      count_list (trace b') client_remove_all_listeners = 1 \<and>
      count_list (trace b') client_release = 1 \<and>
      count_list (trace b') (callback_presence (bot_identifier sample_backend) OFFLINE) = 0 \<and>
      count_list (trace b') disconnect_callback = 0)"
proof -
  have t: "trace sample_backend = []" by (simp add: sample_backend_def)
  have q: "connect_exn quiet_env = None"
    and r: "\<exists>e. connect_exn refused_env = Some e \<and> is_Exception e"
    by (simp_all add: quiet_env_def refused_env_def)
  from serve_once_cleanup[OF quiet_run] q t
  have 1: "let b' = snd (the (serve_once quiet_env sample_backend)) in
      count_list (trace b') client_remove_all_listeners = 1 \<and>
      count_list (trace b') client_release = 1 \<and>
      count_list (trace b') (callback_presence (bot_identifier sample_backend) OFFLINE) = 1 \<and>
      count_list (trace b') disconnect_callback = 1"
    unfolding quiet_run by simp
  from serve_once_cleanup[OF refused_run] r t
  have 2: "let b' = snd (the (serve_once refused_env sample_backend)) in
      count_list (trace b') client_remove_all_listeners = 1 \<and>
      count_list (trace b') client_release = 1 \<and>
      count_list (trace b') (callback_presence (bot_identifier sample_backend) OFFLINE) = 0 \<and>
      count_list (trace b') disconnect_callback = 0"
    unfolding refused_run by simp
  from 1 2 show ?thesis by (simp add: quiet_run refused_run)
qed

lemma thread_signal:
  assumes c: "meteor_client b = Some c" "''closed'' \<in> set (listeners c)" "\<not> closed_emitted c"
    and l: "login_reply env = Some (le, ls)"
    and s: "le = PyNone \<longrightarrow> subscribe_reply env = Some se"
  shows "subscribing_done_event (transport_thread env b) \<and>
         (\<exists>pre post. trace (transport_thread env b) = trace b @ pre @ subscribing_done_set # post)"
proof -
  let ?login = "client_login (login_username b) (login_password b)"
  let ?sub = "client_subscribe ''stream-room-messages'' [PyStr ''__my_messages__'', PyBool False]"
  consider (login_failed) "le \<noteq> PyNone"
    | (subscribe_failed) "le = PyNone" "subscribe_reply env = Some se" "se \<noteq> PyNone"
    | (subscribed) "le = PyNone" "subscribe_reply env = Some se" "se = PyNone"
    using s by blast
  then show ?thesis
  proof cases
    case login_failed
    with c l have "subscribing_done_event (transport_thread env b)"
      and "trace (transport_thread env b) =
             trace b @ [?login, client_close] @ subscribing_done_set # [meteor_closed_set]"
      by (simp_all add: transport_thread_def on_thread_def meteor_connected_callback_def
            meteor_login_callback_def meteor_close_def client_emit_closed_def
            meteor_closed_callback_def emit_def Let_def)
    then show ?thesis by blast
  next
    case subscribe_failed
    with c l have "subscribing_done_event (transport_thread env b)"
      and "trace (transport_thread env b) =
             trace b @ [?login, ?sub, client_close] @ subscribing_done_set # [meteor_closed_set]"
      by (simp_all add: transport_thread_def on_thread_def meteor_connected_callback_def
            meteor_login_callback_def meteor_subscribe_callback_def meteor_close_def
            client_emit_closed_def meteor_closed_callback_def emit_def Let_def)
    then show ?thesis by blast
  next
    case subscribed
    with c l have "subscribing_done_event (transport_thread env b)"
      and "trace (transport_thread env b) =
             trace b @ [?login, ?sub, connect_callback,
                        callback_presence (bot_identifier b) ONLINE, reset_reconnection_count]
                     @ subscribing_done_set # []"
      by (simp_all add: transport_thread_def on_thread_def meteor_connected_callback_def
            meteor_login_callback_def meteor_subscribe_callback_def emit_def Let_def)
    then show ?thesis by blast
  qed
qed

text \<open>
  C2. When \<open>connect()\<close> has returned and the login is answered, with an error or with
  success, and after a successful login the subscription is answered, with an error
  or with success, the subscribing-done event is set when the callbacks have run, and
  every run of \<open>serve_once\<close> that returns or raises has set it after its prologue and
  before its cleanup. The closed callback sets the event in every state, and so does
  the subscribe callback called without error.
\<close>

theorem subscribing_done_signalled:
  assumes conn: "connect_exn env = None"
    and login: "login_reply env = Some (login_error, login_success)"
    and sub: "login_error = PyNone \<longrightarrow> subscribe_reply env = Some subscribe_error"
  shows "subscribing_done_event (transport_thread env (connect_returned (session_start b))) \<and>
         (\<forall>out b'. serve_once env b = Some (out, b')
            \<longrightarrow> (\<exists>pre post. trace b' =
                   trace b @ prologue b @ pre @ subscribing_done_set # post @ epilogue env b)) \<and>
         subscribing_done_event (meteor_closed_callback code reason b0) \<and>
         (\<forall>b1. meteor_subscribe_callback PyNone b0 = Inr b1 \<longrightarrow> subscribing_done_event b1)"
proof -
  let ?b4 = "connect_returned (session_start b)"
  let ?b5 = "transport_thread env ?b4"
  have c4: "meteor_client ?b4 =
      Some \<lparr>listeners = callback_events, connected = True, closed_emitted = False\<rparr>"
    by (simp add: connect_returned_facts session_start_facts)
  have th: "subscribing_done_event ?b5 \<and>
         (\<exists>pre post. trace ?b5 = trace ?b4 @ pre @ subscribing_done_set # post)"
    by (rule thread_signal[OF c4 _ _ login sub]) (simp_all add: callback_events_def)
  then obtain pre post where tr5: "trace ?b5 = trace ?b4 @ pre @ subscribing_done_set # post"
    by blast
  have run: "\<exists>pre post. trace b' =
                   trace b @ prologue b @ pre @ subscribing_done_set # post @ epilogue env b"
    if r: "serve_once env b = Some (out, b')" for out b'
  proof -
    from serve_once_connected[OF r conn] obtain bX where
      g0: "session_run ?b5 bX" and
      b': "b' = bX\<lparr>meteor_client := None,
                      subscribing_done_event := False, meteor_closed_event := False,
                      trace := trace bX @ [client_remove_all_listeners, client_release,
                                           callback_presence (bot_identifier bX) OFFLINE,
                                           disconnect_callback,
                                           subscribing_done_clear, meteor_closed_clear]\<rparr>"
      by blast
    note g = run_grows[OF g0]
    from grows_trace[OF g] obtain rest where rest: "trace bX = trace ?b5 @ rest" by blast
    have "bot_identifier bX = bot_identifier b"
      using grows_fields[OF g] grows_fields[OF grows_thread[of ?b4 env]]
      by (simp add: connect_returned_facts session_start_facts)
    then have "trace b' =
        trace b @ prologue b @ pre @ subscribing_done_set # (post @ rest) @ epilogue env b"
      using b' rest tr5 conn
      by (simp add: connect_returned_facts session_start_facts epilogue_def)
    then show ?thesis by blast
  qed
  have cb: "subscribing_done_event (meteor_closed_callback code reason b0)"
    by (simp add: meteor_closed_callback_def Let_def)
  have sc: "subscribing_done_event b1" if "meteor_subscribe_callback PyNone b0 = Inr b1" for b1
    using that by (auto simp: meteor_subscribe_callback_def Let_def)
  from th run cb sc show ?thesis by blast
qed

theorem subscribing_done_signalled_witness:
  "subscribing_done_event
     (transport_thread auth_failed_env (connect_returned (session_start sample_backend))) \<and>
   subscribing_done_event
     (transport_thread quiet_env (connect_returned (session_start sample_backend))) \<and>
   subscribing_done_event
     (transport_thread (quiet_env\<lparr>subscribe_reply := Some (PyStr ''not-permitted'')\<rparr>)
        (connect_returned (session_start sample_backend))) \<and>
   (\<exists>pre post. trace (snd (the (serve_once auth_failed_env sample_backend))) =
       trace sample_backend @ prologue sample_backend @ pre @ subscribing_done_set # post @
       epilogue auth_failed_env sample_backend) \<and>
   (\<exists>pre post. trace (snd (the (serve_once quiet_env sample_backend))) =
       trace sample_backend @ prologue sample_backend @ pre @ subscribing_done_set # post @
       epilogue quiet_env sample_backend)"
proof -
  let ?sub_failed = "quiet_env\<lparr>subscribe_reply := Some (PyStr ''not-permitted'')\<rparr>"
  have a: "connect_exn auth_failed_env = None"
      "login_reply auth_failed_env = Some (PyDict [(''error'', PyInt 403)], PyNone)"
      "PyDict [(''error'', PyInt 403)] = PyNone \<longrightarrow> subscribe_reply auth_failed_env = Some PyNone"
    by (simp_all add: auth_failed_env_def quiet_env_def)
  have q: "connect_exn quiet_env = None"
      "login_reply quiet_env = Some (PyNone, PyDict [(''id'', PyStr ''u1'')])"
      "PyNone = PyNone \<longrightarrow> subscribe_reply quiet_env = Some PyNone"
    by (simp_all add: quiet_env_def)
  have s: "connect_exn ?sub_failed = None"
      "login_reply ?sub_failed = Some (PyNone, PyDict [(''id'', PyStr ''u1'')])"
      "PyNone = PyNone \<longrightarrow> subscribe_reply ?sub_failed = Some (PyStr ''not-permitted'')"
    by (simp_all add: quiet_env_def)
  note ra = subscribing_done_signalled[OF a, of sample_backend PyNone PyNone sample_backend]
  note rq = subscribing_done_signalled[OF q, of sample_backend PyNone PyNone sample_backend]
  note rs = subscribing_done_signalled[OF s, of sample_backend PyNone PyNone sample_backend]
  have 1: "\<exists>pre post. trace (snd (the (serve_once auth_failed_env sample_backend))) =
       trace sample_backend @ prologue sample_backend @ pre @ subscribing_done_set # post @
       epilogue auth_failed_env sample_backend"
    using ra auth_failed_run by (metis option.sel snd_conv)
  have 2: "\<exists>pre post. trace (snd (the (serve_once quiet_env sample_backend))) =
       trace sample_backend @ prologue sample_backend @ pre @ subscribing_done_set # post @
       epilogue quiet_env sample_backend"
    using rq quiet_run by (metis option.sel snd_conv)
  from ra rq rs 1 2 show ?thesis by blast
qed

section \<open>The heartbeat\<close>

lemma loop_undisturbed:
  assumes c: "meteor_client b = Some c" "connected c" "''closed'' \<in> set (listeners c)"
    and quiet: "\<forall>j<n. heartbeat_exn env (k + j) = None \<and> sleep_exn env (k + j) = None"
  shows "\<exists>b'. heartbeat_loop env iv k (replicate n True @ False # rest) b = Some (None, b') \<and>
           trace b' = trace b @ concat (replicate n [read_connected True, heartbeat_func, time_sleep iv])
                        @ [subscribing_done_set, meteor_closed_set, read_connected False]"
  using c quiet
proof (induction n arbitrary: k b)
  case 0
  then show ?case
    by (simp add: client_emit_closed_def meteor_closed_callback_def emit_def Let_def)
next
  case (Suc n)
  let ?b2 = "emit (time_sleep iv) (emit heartbeat_func (emit (read_connected True) b))"
  from Suc.prems(4) have k0: "heartbeat_exn env k = None" "sleep_exn env k = None"
    by (metis add.right_neutral zero_less_Suc)+
  have later: "\<forall>j<n. heartbeat_exn env (Suc k + j) = None \<and> sleep_exn env (Suc k + j) = None"
  proof (intro allI impI)
    fix j assume "j < n"
    then have "Suc j < Suc n" by simp
    with Suc.prems(4) have "heartbeat_exn env (k + Suc j) = None \<and> sleep_exn env (k + Suc j) = None"
      by blast
    then show "heartbeat_exn env (Suc k + j) = None \<and> sleep_exn env (Suc k + j) = None" by simp
  qed
  have c2: "meteor_client ?b2 = Some c" using Suc.prems(1) by simp
  from Suc.IH[OF c2 Suc.prems(2,3) later] obtain b' where
    b': "heartbeat_loop env iv (Suc k) (replicate n True @ False # rest) ?b2 = Some (None, b')"
        "trace b' = trace ?b2 @ concat (replicate n [read_connected True, heartbeat_func, time_sleep iv])
                        @ [subscribing_done_set, meteor_closed_set, read_connected False]"
    by blast
  have "heartbeat_loop env iv k (replicate (Suc n) True @ False # rest) b = Some (None, b')"
    using Suc.prems(1,2) k0 b'(1) by (simp add: Let_def)
  moreover have "trace b' = trace b @
      concat (replicate (Suc n) [read_connected True, heartbeat_func, time_sleep iv])
        @ [subscribing_done_set, meteor_closed_set, read_connected False]"
    using b'(2) by simp
  ultimately show ?case by blast
qed

lemma count_ticks:
  "count_list (concat (replicate n [read_connected True, heartbeat_func, time_sleep iv])) heartbeat_func = n"
  "count_list (concat (replicate n [read_connected True, heartbeat_func, time_sleep iv]))
     (read_connected True) = n"
  by (induction n) simp_all

lemma serve_once_balanced:
  assumes run: "serve_once env b = Some (out, b')"
  shows "balanced b b'"
proof (cases "connect_exn env")
  case None
  let ?b4 = "connect_returned (session_start b)"
  let ?b5 = "transport_thread env ?b4"
  from serve_once_connected[OF run None] obtain bX where
    g: "session_run ?b5 bX" and
    b': "b' = bX\<lparr>meteor_client := None,
                      subscribing_done_event := False, meteor_closed_event := False,
                      trace := trace bX @ [client_remove_all_listeners, client_release,
                                           callback_presence (bot_identifier bX) OFFLINE,
                                           disconnect_callback,
                                           subscribing_done_clear, meteor_closed_clear]\<rparr>"
    by blast
  have 1: "balanced b ?b4"
    unfolding balanced_def
    by (rule exI[of _ 0]) (simp add: connect_returned_facts session_start_facts prologue_counts)
  have 2: "balanced ?b4 ?b5" by (rule signal_balanced[OF grows_thread])
  have 3: "balanced ?b5 bX" using g by (simp add: session_run_def)
  have 4: "balanced bX b'" unfolding balanced_def by (rule exI[of _ 0]) (simp add: b')
  from balanced_trans[OF balanced_trans[OF balanced_trans[OF 1 2] 3] 4] show ?thesis .
next
  case (Some e)
  from serve_once_shape[OF run] Some have "trace b' = trace b @ prologue b @ epilogue env b"
    by auto
  then show ?thesis
    unfolding balanced_def using Some
    by (intro exI[of _ 0]) (simp add: prologue_counts epilogue_def)
qed

text \<open>
  C5. In every run of the heartbeat part of \<open>serve_once\<close> that ends, and in every run
  of \<open>serve_once\<close> that ends, the heartbeat function has been called exactly as many
  times as the attribute \<open>connected\<close> has been read as true. When the client is
  connected, the attribute is read as true \<open>n\<close> times and then as false, and no call
  raises, the run is \<open>n\<close> rounds of reading the attribute, calling the heartbeat
  function and sleeping for the configured interval, followed by the closed callback
  and the read of false: the
  heartbeat function is called exactly \<open>n\<close> times.
\<close>

theorem heartbeat_invocations:
  "(\<forall>out b'. run_heartbeat env b = Some (out, b')
      \<longrightarrow> (\<exists>n. count_list (trace b') heartbeat_func = count_list (trace b) heartbeat_func + n \<and>
               count_list (trace b') (read_connected True)
                 = count_list (trace b) (read_connected True) + n)) \<and>
   (\<forall>out b'. serve_once env b = Some (out, b')
      \<longrightarrow> (\<exists>n. count_list (trace b') heartbeat_func = count_list (trace b) heartbeat_func + n \<and>
               count_list (trace b') (read_connected True)
                 = count_list (trace b) (read_connected True) + n)) \<and>
   (meteor_client b = Some c \<and> connected c \<and> ''closed'' \<in> set (listeners c) \<and>
    py_callable (get_config (cfg b) HEARTBEAT_FUNC PyNone) \<and>
    float_exn env (get_config (cfg b) HEARTBEAT_INTERVAL (PyInt 10)) = None \<and>
    connected_reads env = replicate n True @ False # rest \<and>
    (\<forall>j<n. heartbeat_exn env j = None \<and> sleep_exn env j = None)
      \<longrightarrow> (\<exists>b'. run_heartbeat env b = Some (None, b') \<and>
                trace b' = trace b @
                  concat (replicate n [read_connected True, heartbeat_func,
                                       time_sleep (get_config (cfg b) HEARTBEAT_INTERVAL (PyInt 10))]) @
                  [subscribing_done_set, meteor_closed_set, read_connected False] \<and>
                count_list (trace b') heartbeat_func = count_list (trace b) heartbeat_func + n))"
proof (intro conjI allI impI)
  fix out b'
  assume "run_heartbeat env b = Some (out, b')"
  from run_heartbeat_run[OF this]
  show "\<exists>n. count_list (trace b') heartbeat_func = count_list (trace b) heartbeat_func + n \<and>
               count_list (trace b') (read_connected True)
                 = count_list (trace b) (read_connected True) + n"
    by (simp add: session_run_def balanced_def)
next
  fix out b'
  assume "serve_once env b = Some (out, b')"
  from serve_once_balanced[OF this]
  show "\<exists>n. count_list (trace b') heartbeat_func = count_list (trace b) heartbeat_func + n \<and>
               count_list (trace b') (read_connected True)
                 = count_list (trace b) (read_connected True) + n"
    by (simp add: balanced_def)
next
  assume a: "meteor_client b = Some c \<and> connected c \<and> ''closed'' \<in> set (listeners c) \<and>
    py_callable (get_config (cfg b) HEARTBEAT_FUNC PyNone) \<and>
    float_exn env (get_config (cfg b) HEARTBEAT_INTERVAL (PyInt 10)) = None \<and>
    connected_reads env = replicate n True @ False # rest \<and>
    (\<forall>j<n. heartbeat_exn env j = None \<and> sleep_exn env j = None)"
  then have q: "\<forall>j<n. heartbeat_exn env (0 + j) = None \<and> sleep_exn env (0 + j) = None" by simp
  from a have c: "meteor_client b = Some c" "connected c" "''closed'' \<in> set (listeners c)"
    by simp_all
  let ?iv = "get_config (cfg b) HEARTBEAT_INTERVAL (PyInt 10)"
  from loop_undisturbed[OF c q, of ?iv rest] obtain b' where
    l: "heartbeat_loop env ?iv 0 (replicate n True @ False # rest) b = Some (None, b')" and
    t: "trace b' = trace b @ concat (replicate n [read_connected True, heartbeat_func, time_sleep ?iv])
                        @ [subscribing_done_set, meteor_closed_set, read_connected False]"
    by blast
  have "run_heartbeat env b = Some (None, b')"
    using a l by (simp add: run_heartbeat_def Let_def)
  moreover have "count_list (trace b') heartbeat_func = count_list (trace b) heartbeat_func + n"
    using t by (simp add: count_ticks)
  ultimately show "\<exists>b'. run_heartbeat env b = Some (None, b') \<and>
                trace b' = trace b @
                  concat (replicate n [read_connected True, heartbeat_func,
                                       time_sleep (get_config (cfg b) HEARTBEAT_INTERVAL (PyInt 10))]) @
                  [subscribing_done_set, meteor_closed_set, read_connected False] \<and>
                count_list (trace b') heartbeat_func = count_list (trace b) heartbeat_func + n"
    using t by blast
qed

theorem heartbeat_invocations_witness:
  "get_bool_config (cfg heartbeat_backend) HEARTBEAT_ENABLED PyNone \<and>
   connected_reads quiet_env = [True, True, True, False] \<and>
   (\<exists>b'. run_heartbeat quiet_env heartbeat_backend = Some (None, b') \<and>
         trace b' =
           [read_connected True, heartbeat_func, time_sleep (PyStr ''0.01''),
            read_connected True, heartbeat_func, time_sleep (PyStr ''0.01''),
            read_connected True, heartbeat_func, time_sleep (PyStr ''0.01''),
            subscribing_done_set, meteor_closed_set, read_connected False] \<and>
         count_list (trace b') heartbeat_func = 3)"
proof -
  let ?c = "\<lparr>listeners = callback_events, connected = True, closed_emitted = False\<rparr>"
  have en: "get_bool_config (cfg heartbeat_backend) HEARTBEAT_ENABLED PyNone"
    by (simp add: get_bool_config_value get_config_def heartbeat_backend_def live_backend_def
          sample_backend_def sample_config_def HEARTBEAT_ENABLED_def ENV_VAR_NAME_PREFIX_def
          py_lower_def lower_char_def)
  have reads: "connected_reads quiet_env = [True, True, True, False]"
    by (simp add: quiet_env_def)
  have t: "trace heartbeat_backend = []"
    by (simp add: heartbeat_backend_def live_backend_def sample_backend_def)
  have iv: "get_config (cfg heartbeat_backend) HEARTBEAT_INTERVAL (PyInt 10) = PyStr ''0.01''"
    by (simp add: heartbeat_backend_def live_backend_def sample_backend_def sample_config_def
          get_config_def HEARTBEAT_INTERVAL_def ENV_VAR_NAME_PREFIX_def)
  have pre: "meteor_client heartbeat_backend = Some ?c \<and> connected ?c \<and>
      ''closed'' \<in> set (listeners ?c) \<and>
      py_callable (get_config (cfg heartbeat_backend) HEARTBEAT_FUNC PyNone) \<and>
      float_exn quiet_env (get_config (cfg heartbeat_backend) HEARTBEAT_INTERVAL (PyInt 10)) = None \<and>
      connected_reads quiet_env = replicate 3 True @ False # [] \<and>
      (\<forall>j<3. heartbeat_exn quiet_env j = None \<and> sleep_exn quiet_env j = None)"
    by (simp add: heartbeat_backend_def live_backend_def sample_backend_def sample_config_def
          callback_events_def get_config_def HEARTBEAT_FUNC_def HEARTBEAT_INTERVAL_def
          ENV_VAR_NAME_PREFIX_def quiet_env_def numeral_3_eq_3)
  from heartbeat_invocations[of quiet_env heartbeat_backend ?c 3 "[]"] pre
  have "\<exists>b'. run_heartbeat quiet_env heartbeat_backend = Some (None, b') \<and>
                trace b' = trace heartbeat_backend @
                  concat (replicate 3 [read_connected True, heartbeat_func,
                     time_sleep (get_config (cfg heartbeat_backend) HEARTBEAT_INTERVAL (PyInt 10))]) @
                  [subscribing_done_set, meteor_closed_set, read_connected False] \<and>
                count_list (trace b') heartbeat_func
                  = count_list (trace heartbeat_backend) heartbeat_func + 3"
    by blast
  then have "\<exists>b'. run_heartbeat quiet_env heartbeat_backend = Some (None, b') \<and>
         trace b' =
           [read_connected True, heartbeat_func, time_sleep (PyStr ''0.01''),
            read_connected True, heartbeat_func, time_sleep (PyStr ''0.01''),
            read_connected True, heartbeat_func, time_sleep (PyStr ''0.01''),
            subscribing_done_set, meteor_closed_set, read_connected False] \<and>
         count_list (trace b') heartbeat_func = 3"
    by (simp add: t iv numeral_3_eq_3)
  with en reads show ?thesis by blast
qed

section \<open>The reconnect loop\<close>

lemma serve_once_counts:
  assumes run: "serve_once env b = Some (out, b')"
  shows "count_list (trace b') (MeteorClient_new (server_uri b))
           = count_list (trace b) (MeteorClient_new (server_uri b)) + 1"
    and "count_list (trace b') shutdown = count_list (trace b) shutdown"
    and "count_list (trace b') log_error = count_list (trace b) log_error"
    and "server_uri b' = server_uri b"
proof -
  from serve_once_shape[OF run] obtain mid where
    tr: "trace b' = trace b @ prologue b @ mid @ epilogue env b" and
    mid: "list_all session_action mid" and u: "server_uri b' = server_uri b" by blast
  have m: "count_list mid (MeteorClient_new (server_uri b)) = 0" "count_list mid shutdown = 0"
    "count_list mid log_error = 0"
    using mid by (simp_all add: count_list_session)
  have e: "count_list (epilogue env b) (MeteorClient_new (server_uri b)) = 0"
    "count_list (epilogue env b) shutdown = 0" "count_list (epilogue env b) log_error = 0"
    by (simp_all add: epilogue_def split: option.splits)
  show "count_list (trace b') (MeteorClient_new (server_uri b))
           = count_list (trace b) (MeteorClient_new (server_uri b)) + 1"
    and "count_list (trace b') shutdown = count_list (trace b) shutdown"
    and "count_list (trace b') log_error = count_list (trace b) log_error"
    and "server_uri b' = server_uri b"
    by (simp_all add: tr m e u prologue_counts)
qed

lemma serve_loop_no_shutdown:
  "serve_loop re envs b = Some (out, b') \<Longrightarrow>
     count_list (trace b') shutdown = count_list (trace b) shutdown"
proof (induction envs arbitrary: b)
  case Nil
  then show ?case by simp
next
  case (Cons env envs)
  from Cons.prems obtain o1 b1 where run: "serve_once env b = Some (o1, b1)"
    by (cases "serve_once env b") auto
  note c1 = serve_once_counts(2)[OF run]
  let ?b2 = "if o1 = None then b1 else emit log_error b1"
  let ?b3 = "emit delay_reconnect ?b2"
  have c3: "count_list (trace ?b3) shutdown = count_list (trace b) shutdown"
    using c1 by simp
  consider (leave) e where "o1 = Some e" "\<not> is_Exception e"
    | (once) "o1 = None \<or> (\<exists>e. o1 = Some e \<and> is_Exception e)" "\<not> re"
    | (intr) e where "o1 = None \<or> (\<exists>e. o1 = Some e \<and> is_Exception e)" "re" "delay_exn env = Some e"
    | (again) "o1 = None \<or> (\<exists>e. o1 = Some e \<and> is_Exception e)" "re" "delay_exn env = None"
    by (cases o1; cases "delay_exn env"; auto)
  then show ?case
  proof cases
    case leave
    with Cons.prems run c1 show ?thesis by simp
  next
    case once
    with Cons.prems run c1 show ?thesis by auto
  next
    case intr
    with Cons.prems run c1 show ?thesis by (auto simp: Let_def)
  next
    case again
    with Cons.prems run have "serve_loop re envs ?b3 = Some (out, b')"
      by (auto simp: Let_def)
    from Cons.IH[OF this] c3 show ?thesis by simp
  qed
qed

lemma patch_client_facts:
  "cfg (patch_client b) = cfg b" "server_uri (patch_client b) = server_uri b"
  "count_list (trace (patch_client b)) shutdown = count_list (trace b) shutdown"
  "count_list (trace (patch_client b)) log_error = count_list (trace b) log_error"
  "count_list (trace (patch_client b)) (MeteorClient_new u) = count_list (trace b) (MeteorClient_new u)"
  by (simp_all add: patch_client_def Let_def)

text \<open>
  C4. With reconnect disabled by configuration, \<open>serve_forever\<close> calls \<open>serve_once\<close>
  once and returns: after an attempt that completes, and after an attempt that raises
  an \<open>Exception\<close>, which is logged and not propagated; whatever the attempt does, one
  Meteor client has been created and \<open>shutdown\<close> has been called once, last. Whether
  reconnect is enabled or not, every way out of \<open>serve_forever\<close> calls \<open>shutdown\<close>
  exactly once, as its last action.
\<close>

theorem serve_forever_single_attempt:
  "(\<not> get_bool_config (cfg b) RECONNECT_ENABLED (PyBool True) \<and>
    serve_once env (patch_client b) = Some (out, b1)
      \<longrightarrow> (out = None \<longrightarrow> serve_forever (env # envs) b = Some (None, emit shutdown b1)) \<and>
          (\<forall>e. out = Some e \<and> is_Exception e
             \<longrightarrow> serve_forever (env # envs) b = Some (None, emit shutdown (emit log_error b1))) \<and>
          (\<exists>res b'. serve_forever (env # envs) b = Some (res, b') \<and>
             count_list (trace b') (MeteorClient_new (server_uri b))
               = count_list (trace b) (MeteorClient_new (server_uri b)) + 1 \<and>
             count_list (trace b') shutdown = count_list (trace b) shutdown + 1 \<and>
             last (trace b') = shutdown)) \<and>
   (\<forall>sessions res b'. serve_forever sessions b = Some (res, b')
      \<longrightarrow> count_list (trace b') shutdown = count_list (trace b) shutdown + 1 \<and>
          last (trace b') = shutdown)"
proof (intro conjI allI impI)
  assume a: "\<not> get_bool_config (cfg b) RECONNECT_ENABLED (PyBool True) \<and>
    serve_once env (patch_client b) = Some (out, b1)"
  assume "out = None"
  with a show "serve_forever (env # envs) b = Some (None, emit shutdown b1)"
    by (simp add: serve_forever_def Let_def)
next
  fix e
  assume a: "\<not> get_bool_config (cfg b) RECONNECT_ENABLED (PyBool True) \<and>
    serve_once env (patch_client b) = Some (out, b1)"
  assume "out = Some e \<and> is_Exception e"
  with a show "serve_forever (env # envs) b = Some (None, emit shutdown (emit log_error b1))"
    by (auto simp: serve_forever_def Let_def)
next
  assume a: "\<not> get_bool_config (cfg b) RECONNECT_ENABLED (PyBool True) \<and>
    serve_once env (patch_client b) = Some (out, b1)"
  then have run: "serve_once env (patch_client b) = Some (out, b1)" by simp
  note c = serve_once_counts[OF run]
  let ?b2 = "if out = None \<or> (\<exists>e. out = Some e \<and> \<not> is_Exception e) then b1 else emit log_error b1"
  let ?res = "if out = Some KeyboardInterrupt \<or> (\<exists>e. out = Some e \<and> is_Exception e) then None else out"
  have "serve_forever (env # envs) b = Some (?res, emit shutdown ?b2)"
    using a by (cases out) (auto simp: serve_forever_def Let_def)
  moreover have "count_list (trace (emit shutdown ?b2)) (MeteorClient_new (server_uri b))
               = count_list (trace b) (MeteorClient_new (server_uri b)) + 1"
    using c(1) by (simp add: patch_client_facts)
  moreover have "count_list (trace (emit shutdown ?b2)) shutdown = count_list (trace b) shutdown + 1"
    using c(2) by (simp add: patch_client_facts)
  moreover have "last (trace (emit shutdown ?b2)) = shutdown" by simp
  ultimately show "\<exists>res b'. serve_forever (env # envs) b = Some (res, b') \<and>
             count_list (trace b') (MeteorClient_new (server_uri b))
               = count_list (trace b) (MeteorClient_new (server_uri b)) + 1 \<and>
             count_list (trace b') shutdown = count_list (trace b) shutdown + 1 \<and>
             last (trace b') = shutdown"
    by blast
next
  fix sessions res b'
  assume f: "serve_forever sessions b = Some (res, b')"
  let ?re = "get_bool_config (cfg b) RECONNECT_ENABLED (PyBool True)"
  from f obtain o1 b1 where l: "serve_loop ?re sessions (patch_client b) = Some (o1, b1)"
    by (cases "serve_loop ?re sessions (patch_client b)") (auto simp: serve_forever_def Let_def)
  from f l have b': "b' = emit shutdown b1" by (simp add: serve_forever_def Let_def)
  from serve_loop_no_shutdown[OF l] b'
  show "count_list (trace b') shutdown = count_list (trace b) shutdown + 1"
    by (simp add: patch_client_facts)
  from b' show "last (trace b') = shutdown" by simp
qed

lemma oneshot_patch:
  "patch_client oneshot_backend = oneshot_backend\<lparr>trace := [patch_meteor_client]\<rparr>"
  by (simp add: patch_client_def get_bool_config_value get_config_def oneshot_backend_def
        sample_backend_def sample_config_def PATCH_METEOR_CLIENT_def ENV_VAR_NAME_PREFIX_def
        py_lower_def lower_char_def emit_def)

lemma oneshot_refused:
  "\<exists>b1. serve_once refused_env (patch_client oneshot_backend)
          = Some (Some (OtherException ''ConnectionRefusedError''), b1)"
  by (simp add: serve_once_def refused_env_def quiet_env_def leave_def connect_failed_def
        session_start_facts)

lemma oneshot_auth_failed:
  "\<exists>b1. serve_once auth_failed_env (patch_client oneshot_backend) = Some (None, b1)"
proof -
  have hb: "\<not> get_bool_config (cfg oneshot_backend) HEARTBEAT_ENABLED PyNone"
    by (simp add: get_bool_config_value get_config_def oneshot_backend_def sample_backend_def
          sample_config_def HEARTBEAT_ENABLED_def ENV_VAR_NAME_PREFIX_def)
  show ?thesis
    unfolding serve_once_def
    by (simp add: hb patch_client_facts session_start_def auth_failed_env_def quiet_env_def
          connect_returned_def
          transport_thread_def on_thread_def meteor_connected_callback_def meteor_login_callback_def
          meteor_close_def session_body_def wait_subscribing_done_def
          wait_meteor_closed_def client_emit_closed_def meteor_closed_callback_def
          final_cleanup_def leave_def emit_def callback_events_def Let_def)
qed

theorem serve_forever_single_attempt_witness:
  "\<not> get_bool_config (cfg oneshot_backend) RECONNECT_ENABLED (PyBool True) \<and>
   (\<exists>b1. serve_once auth_failed_env (patch_client oneshot_backend) = Some (None, b1) \<and>
         serve_forever [auth_failed_env, quiet_env] oneshot_backend = Some (None, emit shutdown b1)) \<and>
   (\<exists>b1. serve_once refused_env (patch_client oneshot_backend)
           = Some (Some (OtherException ''ConnectionRefusedError''), b1) \<and>
         serve_forever [refused_env, quiet_env] oneshot_backend
           = Some (None, emit shutdown (emit log_error b1))) \<and>
   (\<exists>res b'. serve_forever [auth_failed_env, quiet_env] oneshot_backend = Some (res, b') \<and>
         count_list (trace b') (MeteorClient_new (server_uri oneshot_backend)) = 1 \<and>
         count_list (trace b') shutdown = 1 \<and> last (trace b') = shutdown)"
proof -
  have off: "\<not> get_bool_config (cfg oneshot_backend) RECONNECT_ENABLED (PyBool True)"
    by (simp add: get_bool_config_value get_config_def oneshot_backend_def sample_backend_def
          sample_config_def RECONNECT_ENABLED_def ENV_VAR_NAME_PREFIX_def
          py_lower_def lower_char_def)
  have t: "trace oneshot_backend = []" by (simp add: oneshot_backend_def sample_backend_def)
  from oneshot_auth_failed obtain b1 where
    r1: "serve_once auth_failed_env (patch_client oneshot_backend) = Some (None, b1)" by blast
  from oneshot_refused obtain b2 where
    r2: "serve_once refused_env (patch_client oneshot_backend)
          = Some (Some (OtherException ''ConnectionRefusedError''), b2)" by blast
  from serve_forever_single_attempt
         [of oneshot_backend auth_failed_env None b1 "[quiet_env]"] off r1
  have s1: "(None = (None :: exn option) \<longrightarrow>
        serve_forever [auth_failed_env, quiet_env] oneshot_backend = Some (None, emit shutdown b1)) \<and>
      (\<exists>res b'. serve_forever [auth_failed_env, quiet_env] oneshot_backend = Some (res, b') \<and>
             count_list (trace b') (MeteorClient_new (server_uri oneshot_backend))
               = count_list (trace oneshot_backend) (MeteorClient_new (server_uri oneshot_backend)) + 1 \<and>
             count_list (trace b') shutdown = count_list (trace oneshot_backend) shutdown + 1 \<and>
             last (trace b') = shutdown)"
    by blast
  from serve_forever_single_attempt
         [of oneshot_backend refused_env "Some (OtherException ''ConnectionRefusedError'')" b2
             "[quiet_env]"] off r2
  have s2: "\<forall>e. Some (OtherException ''ConnectionRefusedError'') = Some e \<and> is_Exception e
             \<longrightarrow> serve_forever [refused_env, quiet_env] oneshot_backend
                   = Some (None, emit shutdown (emit log_error b2))"
    by blast
  from s1 have 1:
    "serve_forever [auth_failed_env, quiet_env] oneshot_backend = Some (None, emit shutdown b1)"
    by blast
  from s2 have 2:
    "serve_forever [refused_env, quiet_env] oneshot_backend
       = Some (None, emit shutdown (emit log_error b2))"
    by simp
  from s1 have "\<exists>res b'. serve_forever [auth_failed_env, quiet_env] oneshot_backend = Some (res, b') \<and>
             count_list (trace b') (MeteorClient_new (server_uri oneshot_backend))
               = count_list (trace oneshot_backend) (MeteorClient_new (server_uri oneshot_backend)) + 1 \<and>
             count_list (trace b') shutdown = count_list (trace oneshot_backend) shutdown + 1 \<and>
             last (trace b') = shutdown"
    by (rule conjunct2)
  then have 3:
    "\<exists>res b'. serve_forever [auth_failed_env, quiet_env] oneshot_backend = Some (res, b') \<and>
         count_list (trace b') (MeteorClient_new (server_uri oneshot_backend)) = 1 \<and>
         count_list (trace b') shutdown = 1 \<and> last (trace b') = shutdown"
    unfolding t by simp
  from off r1 r2 1 2 3 show ?thesis by blast
qed

end
